theory Spec2Isabelle
  imports Complex_Main
begin

section \<open>Common vocabulary\<close>

text \<open>Decimal rendering of a natural number, as \<open>str\<close> and an f-string do for an \<open>int\<close>.\<close>

definition digit_char :: "nat \<Rightarrow> char" where
  "digit_char d = ''0123456789'' ! d"

function str_nat :: "nat \<Rightarrow> string" where
  "str_nat n = (if n < 10 then [digit_char n] else str_nat (n div 10) @ [digit_char (n mod 10)])"
  by pat_completeness auto
termination
  by (relation "measure (\<lambda>n. n)") auto

declare str_nat.simps [simp del]

text \<open>
  Python exceptions are values.  \<open>IOError\<close> (an alias of \<open>OSError\<close> in Python 3) and its
  subclasses \<open>FileExistsError\<close>, \<open>FileNotFoundError\<close> and \<open>PermissionError\<close> carry their
  \<open>errno\<close> attribute, which is \<open>None\<close> when the exception was constructed from a message
  only (as \<open>raise FileNotFoundError(f"...")\<close> does), and a message; the other
  constructors carry the message text.  Message texts of the source are in Chinese; the
  model writes them in ASCII.
\<close>

datatype exn =
    IOError "nat option" string
  | FileExistsError "nat option" string
  | FileNotFoundError "nat option" string
  | PermissionError "nat option" string
  | TypeError string
  | ValueError string
  | ZeroDivisionError string
  | CalledProcessError string
  | RuntimeError string
  | AttributeError string
  | KeyError string
  | Exception string

text \<open>
  \<open>str(e)\<close>: an \<open>OSError\<close> with an \<open>errno\<close> renders as \<open>[Errno n] message\<close>, a \<open>KeyError\<close>
  as the quoted key, every other exception as its message.
\<close>

definition str_os_error :: "nat option \<Rightarrow> string \<Rightarrow> string" where
  "str_os_error en m = (case en of None \<Rightarrow> m | Some n \<Rightarrow> ''[Errno '' @ str_nat n @ ''] '' @ m)"

fun str_exn :: "exn \<Rightarrow> string" where
  "str_exn (IOError en m) = str_os_error en m"
| "str_exn (FileExistsError en m) = str_os_error en m"
| "str_exn (FileNotFoundError en m) = str_os_error en m"
| "str_exn (PermissionError en m) = str_os_error en m"
| "str_exn (TypeError m) = m"
| "str_exn (ValueError m) = m"
| "str_exn (ZeroDivisionError m) = m"
| "str_exn (CalledProcessError m) = m"
| "str_exn (RuntimeError m) = m"
| "str_exn (AttributeError m) = m"
| "str_exn (KeyError m) = [CHR 0x27] @ m @ [CHR 0x27]"
| "str_exn (Exception m) = m"

text \<open>\<open>os.path.join\<close> of two components, the first non-empty and the second relative.\<close>

definition path_join :: "string \<Rightarrow> string \<Rightarrow> string" where
  "path_join a b = a @ ''/'' @ b"

section \<open>Segmenter: \<open>processors/video_slicer.py\<close>\<close>

text \<open>
  A scene of the cut detector is a pair of frame timecodes; \<open>get_frames()\<close> of each is a
  frame number.  \<open>video_info\<close> is the dictionary \<open>slice_video\<close> passes down; times are
  Python floats, idealised here as real numbers.
\<close>

type_synonym scene = "int \<times> int"

record video_info =
  vi_frame_count :: int
  vi_duration :: real
  vi_fps :: real

text \<open>
  The video path enters \<open>_perform_slicing\<close> through \<open>Path(video_path).stem\<close> and
  \<open>os.path.basename(os.path.dirname(video_path))\<close>; the record carries the path with
  these two components.
\<close>

record video_file =
  file_path :: string
  parent_name :: string
  stem :: string

record slice_config =
  output_dir :: string
  min_duration :: "real option"
  finish_dir :: string

record segment_info =
  index :: nat
  start_time :: real
  end_time :: real
  duration :: real
  start_frame :: int
  end_frame :: int
  output_path :: string

record slice_info =
  original_video :: string
  total_duration :: real
  total_frames :: int
  fps :: real
  segments :: "segment_info list"

text \<open>\<open>self.config.slice_config.get('min_duration', 0.1)\<close>\<close>

definition get_min_duration :: "slice_config \<Rightarrow> real" where
  "get_min_duration cfg = (case min_duration cfg of None \<Rightarrow> 1 / 10 | Some d \<Rightarrow> d)"

definition segment_output_path :: "slice_config \<Rightarrow> video_file \<Rightarrow> nat \<Rightarrow> string" where
  "segment_output_path cfg v i =
     path_join (path_join (output_dir cfg) (parent_name v))
       (stem v @ ''_segment_'' @ str_nat (i + 1) @ ''.mp4'')"

text \<open>
  An invocation of \<open>ffmpeg\<close> by the Segmenter: the output path and the values given to
  \<open>-ss\<close> and \<open>-t\<close>.  Each invocation is asked to write one clip.
\<close>

record ffmpeg_call =
  call_output :: string
  call_start :: real
  call_duration :: real

text \<open>
  The body of the \<open>try\<close> of one loop iteration (lines 157-224), for the scene at
  0-based position \<open>i\<close>.  In the first component, \<open>Inl\<close> is an exception raised inside
  it, \<open>Inr None\<close> the \<open>continue\<close> of a too-short scene, \<open>Inr (Some seg)\<close> the appended
  segment; the second component lists the \<open>ffmpeg\<close> invocations made.  A float division
  by zero raises in Python.  \<open>ffmpeg\<close> stands for \<open>os.makedirs\<close> and
  \<open>subprocess.run(ffmpeg_cmd, check=True)\<close>: given the output path, the start and the
  duration it either writes the clip (\<open>None\<close>) or raises.  Times are Python floats in the
  source and real numbers here.
\<close>

definition slice_scene_traced ::
  "slice_config \<Rightarrow> (string \<Rightarrow> real \<Rightarrow> real \<Rightarrow> exn option) \<Rightarrow> video_file \<Rightarrow> video_info
     \<Rightarrow> nat \<Rightarrow> scene \<Rightarrow> (exn + segment_info option) \<times> ffmpeg_call list" where
  "slice_scene_traced cfg ffmpeg v info i sc =
     (let start_frame = fst sc; end_frame = snd sc in
      if vi_fps info = 0 then (Inl (ZeroDivisionError ''float division by zero''), [])
      else
        let start_time = real_of_int start_frame / vi_fps info;
            end_time = real_of_int end_frame / vi_fps info;
            duration = end_time - start_time
        in if duration < get_min_duration cfg then (Inr None, [])
           else
             let output_path = segment_output_path cfg v i;
                 call = \<lparr> call_output = output_path, call_start = start_time,
                          call_duration = duration \<rparr>
             in case ffmpeg output_path start_time duration of
                  Some e \<Rightarrow> (Inl e, [call])
                | None \<Rightarrow>
                    (Inr (Some \<lparr> index = i + 1, start_time = start_time, end_time = end_time,
                                 duration = duration, start_frame = start_frame,
                                 end_frame = end_frame, output_path = output_path \<rparr>),
                     [call]))"

definition slice_scene ::
  "slice_config \<Rightarrow> (string \<Rightarrow> real \<Rightarrow> real \<Rightarrow> exn option) \<Rightarrow> video_file \<Rightarrow> video_info
     \<Rightarrow> nat \<Rightarrow> scene \<Rightarrow> exn + segment_info option" where
  "slice_scene cfg ffmpeg v info i sc = fst (slice_scene_traced cfg ffmpeg v info i sc)"

text \<open>
  \<open>for i, scene in enumerate(scenes)\<close>: the per-scene \<open>except Exception: continue\<close>
  drops a scene whose processing raised.
\<close>

fun slicing_loop ::
  "slice_config \<Rightarrow> (string \<Rightarrow> real \<Rightarrow> real \<Rightarrow> exn option) \<Rightarrow> video_file \<Rightarrow> video_info
     \<Rightarrow> nat \<Rightarrow> scene list \<Rightarrow> segment_info list \<Rightarrow> segment_info list" where
  "slicing_loop cfg ffmpeg v info i [] segs = segs"
| "slicing_loop cfg ffmpeg v info i (sc # scenes) segs =
     slicing_loop cfg ffmpeg v info (Suc i) scenes
       (case slice_scene cfg ffmpeg v info i sc of
          Inl e \<Rightarrow> segs
        | Inr None \<Rightarrow> segs
        | Inr (Some seg) \<Rightarrow> segs @ [seg])"

definition perform_slicing ::
  "slice_config \<Rightarrow> (string \<Rightarrow> real \<Rightarrow> real \<Rightarrow> exn option) \<Rightarrow> video_file \<Rightarrow> scene list
     \<Rightarrow> video_info \<Rightarrow> slice_info" where
  "perform_slicing cfg ffmpeg v scenes info =
     \<lparr> original_video = file_path v,
       total_duration = vi_duration info,
       total_frames = vi_frame_count info,
       fps = vi_fps info,
       segments = slicing_loop cfg ffmpeg v info 0 scenes [] \<rparr>"

text \<open>The \<open>ffmpeg\<close> invocations of that loop, in order, for the scenes from position \<open>i\<close> on.\<close>

fun ffmpeg_runs ::
  "slice_config \<Rightarrow> (string \<Rightarrow> real \<Rightarrow> real \<Rightarrow> exn option) \<Rightarrow> video_file \<Rightarrow> video_info
     \<Rightarrow> nat \<Rightarrow> scene list \<Rightarrow> ffmpeg_call list" where
  "ffmpeg_runs cfg ffmpeg v info i [] = []"
| "ffmpeg_runs cfg ffmpeg v info i (sc # scenes) =
     snd (slice_scene_traced cfg ffmpeg v info i sc) @ ffmpeg_runs cfg ffmpeg v info (Suc i) scenes"

text \<open>Example inputs: a 25 fps video, a minimum duration of 0.1 s, an \<open>ffmpeg\<close> that never fails.\<close>

definition cfg0 :: slice_config where
  "cfg0 = \<lparr> output_dir = ''out'', min_duration = Some (1 / 10), finish_dir = ''done'' \<rparr>"

definition ffmpeg_ok :: "string \<Rightarrow> real \<Rightarrow> real \<Rightarrow> exn option" where
  "ffmpeg_ok p s d = None"

definition v0 :: video_file where
  "v0 = \<lparr> file_path = ''in/v.mp4'', parent_name = ''in'', stem = ''v'' \<rparr>"

definition info0 :: video_info where
  "info0 = \<lparr> vi_frame_count = 200, vi_duration = 8, vi_fps = 25 \<rparr>"

section \<open>Frame Sampler and Segment Analyzer: \<open>processors/video_analyzer.py\<close>\<close>

text \<open>
  A \<open>cv2.VideoCapture\<close>: its \<open>CAP_PROP_FRAME_COUNT\<close> and, for a frame number, whether
  \<open>cap.read()\<close> after \<open>cap.set(CAP_PROP_POS_FRAMES, frame_no)\<close> returns \<open>ret = True\<close>.
  Constructing a capture on a file that cannot be opened does not raise: the capture
  reports a frame count of 0 and every read returns \<open>ret = False\<close>.
\<close>

record capture =
  frame_count :: int
  readable :: "int \<Rightarrow> bool"

definition unopened_capture :: capture where
  "unopened_capture = \<lparr> frame_count = 0, readable = (\<lambda>frame_no. False) \<rparr>"

text \<open>
  The library calls of \<open>_extract_frames\<close>: \<open>cv2.VideoCapture(video_path)\<close>,
  \<open>np.linspace(0, stop, num, dtype=int)\<close> (which raises for a negative \<open>num\<close>),
  \<open>tempfile.mkdtemp()\<close> and \<open>cv2.imwrite\<close>.
\<close>

record sampler_env =
  VideoCapture :: "string \<Rightarrow> capture"
  linspace :: "int \<Rightarrow> int \<Rightarrow> exn + int list"
  mkdtemp :: "exn + string"
  imwrite :: "string \<Rightarrow> exn option"

definition frame_file :: "string \<Rightarrow> nat \<Rightarrow> string" where
  "frame_file temp_dir idx = path_join temp_dir (''frame_'' @ str_nat idx @ ''.jpg'')"

text \<open>\<open>for idx, frame_no in enumerate(frame_indices)\<close>: a frame is kept only \<open>if ret\<close>.\<close>

fun extract_loop ::
  "capture \<Rightarrow> (string \<Rightarrow> exn option) \<Rightarrow> string \<Rightarrow> nat \<Rightarrow> int list \<Rightarrow> string list
     \<Rightarrow> exn + string list" where
  "extract_loop cap imwr temp_dir idx [] frames = Inr frames"
| "extract_loop cap imwr temp_dir idx (frame_no # rest) frames =
     (if readable cap frame_no then
        (case imwr (frame_file temp_dir idx) of
           Some e \<Rightarrow> Inl e
         | None \<Rightarrow> extract_loop cap imwr temp_dir (Suc idx) rest (frames @ [frame_file temp_dir idx]))
      else extract_loop cap imwr temp_dir (Suc idx) rest frames)"

text \<open>The \<open>except Exception: ... raise\<close> of \<open>_extract_frames\<close> re-raises: \<open>Inl\<close>.\<close>

definition extract_frames :: "sampler_env \<Rightarrow> string \<Rightarrow> int \<Rightarrow> exn + string list" where
  "extract_frames env video_path num_frames =
     (let cap = VideoCapture env video_path;
          total_frames = frame_count cap
      in case linspace env (total_frames - 1) num_frames of
           Inl e \<Rightarrow> Inl e
         | Inr frame_indices \<Rightarrow>
             (case mkdtemp env of
                Inl e \<Rightarrow> Inl e
              | Inr temp_dir \<Rightarrow> extract_loop cap (imwrite env) temp_dir 0 frame_indices []))"

text \<open>
  The response of the description service, as far as the analyzer inspects it:
  \<open>response.choices[0].message.content\<close> and \<open>response.usage.total_tokens\<close>.
\<close>

record chat_message =
  content :: "string option"

record choice =
  choice_message :: "chat_message option"

datatype usage = NoUsageAttribute | UsageNone | Usage nat

record response =
  choices :: "choice list"
  usage :: usage

record analysis_info =
  info_video_path :: string
  analysis_result :: string
  info_token_usage :: nat

record AnalysisResult =
  success :: bool
  analysis_info :: "analysis_info option"
  message :: "string option"
  frames :: "string list option"
  audio_path :: "string option"
  token_usage :: nat

text \<open>
  The request: the prompt and one data URL per sampled frame.  \<open>create\<close> is
  \<open>self.client.chat.completions.create\<close>; its first argument counts the calls made so
  far in this invocation, so that the service may answer each attempt differently.
\<close>

record chat_request =
  prompt :: string
  image_urls :: "string list"

record analyzer_env =
  frames_per_slice :: "int option"
  sampler :: sampler_env
  read_image :: "string \<Rightarrow> exn + string"
  create :: "nat \<Rightarrow> chat_request \<Rightarrow> exn + response option"

definition default_dimensions :: string where
  "default_dimensions = ''1. action 2. subject 3. subject state 4. camera angle 5. place 6. time 7. brand: ''"

text \<open>\<open>_build_prompt\<close>; the \<open>title\<close> argument does not occur in the text it builds.\<close>

definition build_prompt :: "string \<Rightarrow> string \<Rightarrow> string option \<Rightarrow> string" where
  "build_prompt title prev_analysis_result custom_analysis_dimensions =
     (let analysis_dimensions =
        (case custom_analysis_dimensions of
           None \<Rightarrow> default_dimensions
         | Some d \<Rightarrow> if d = [] then default_dimensions else d)
      in ''### prompt. previous segment: <'' @ prev_analysis_result @ ''>. dimensions: ''
           @ analysis_dimensions @ '' output format.'')"

text \<open>Reading and encoding the frames (lines 163-175); a failure is re-raised.\<close>

fun encode_frames :: "(string \<Rightarrow> exn + string) \<Rightarrow> string list \<Rightarrow> exn + string list" where
  "encode_frames rd [] = Inr []"
| "encode_frames rd (frame # rest) =
     (case rd frame of
        Inl e \<Rightarrow> Inl e
      | Inr image_data \<Rightarrow>
          (case encode_frames rd rest of
             Inl e \<Rightarrow> Inl e
           | Inr urls \<Rightarrow> Inr ((''data:image/jpeg;base64,'' @ image_data) # urls)))"

text \<open>
  One pass through the \<open>try\<close> of the retry loop (lines 204-239): the request, the
  validation of the response, and the extraction of text and token usage.
\<close>

definition request_once ::
  "(nat \<Rightarrow> chat_request \<Rightarrow> exn + response option) \<Rightarrow> chat_request \<Rightarrow> nat \<Rightarrow> exn + string \<times> nat" where
  "request_once cr req n =
     (case cr n req of
        Inl e \<Rightarrow> Inl e
      | Inr None \<Rightarrow> Inl (ValueError ''invalid API response'')
      | Inr (Some resp) \<Rightarrow>
          (case choices resp of
             [] \<Rightarrow> Inl (ValueError ''invalid API response'')
           | c # _ \<Rightarrow>
               (case choice_message c of
                  None \<Rightarrow> Inl (ValueError ''invalid API response'')
                | Some m \<Rightarrow>
                    (case content m of
                       None \<Rightarrow> Inl (ValueError ''invalid API response'')
                     | Some result_content \<Rightarrow>
                         if result_content = [] then Inl (ValueError ''invalid API response'')
                         else
                           (case usage resp of
                              NoUsageAttribute \<Rightarrow> Inr (result_content, 0)
                            | UsageNone \<Rightarrow>
                                Inl (Exception ''NoneType object has no attribute total_tokens'')
                            | Usage t \<Rightarrow> Inr (result_content, t))))))"

definition max_retries :: nat where
  "max_retries = 3"

text \<open>What the retry loop does that the outside can observe: requests and sleeps.\<close>

datatype api_event = Request nat | Sleep nat

text \<open>
  \<open>while retry_count < max_retries\<close> (lines 202-249).  The result is the text and token
  usage of the first valid response, or \<open>last_error\<close> when the loop runs out.
\<close>

function retry_loop ::
  "(nat \<Rightarrow> chat_request \<Rightarrow> exn + response option) \<Rightarrow> chat_request \<Rightarrow> nat \<Rightarrow> exn option
     \<Rightarrow> api_event list \<Rightarrow> (exn option + string \<times> nat) \<times> api_event list" where
  "retry_loop cr req retry_count last_error trace =
     (if retry_count < max_retries then
        (case request_once cr req retry_count of
           Inr r \<Rightarrow> (Inr r, trace @ [Request retry_count])
         | Inl e \<Rightarrow>
             retry_loop cr req (retry_count + 1) (Some e)
               (trace @ [Request retry_count] @
                  (if retry_count + 1 < max_retries then [Sleep (2 ^ (retry_count + 1))] else [])))
      else (Inl last_error, trace))"
  by pat_completeness auto
termination
  by (relation "measure (\<lambda>(cr, req, retry_count, last_error, trace). max_retries - retry_count)") auto

declare retry_loop.simps [simp del]

definition str_last_error :: "exn option \<Rightarrow> string" where
  "str_last_error e = (case e of None \<Rightarrow> ''None'' | Some x \<Rightarrow> str_exn x)"

definition get_frames_per_slice :: "analyzer_env \<Rightarrow> int" where
  "get_frames_per_slice env = (case frames_per_slice env of None \<Rightarrow> 2 | Some k \<Rightarrow> k)"

text \<open>
  \<open>analyze_video_slice\<close>.  Its outer \<open>except Exception\<close> turns every exception of the
  preparation into a failed \<open>AnalysisResult\<close>, so the function returns a result on every
  path; the second component is the trace of requests and sleeps.
\<close>

definition analyze_video_slice ::
  "analyzer_env \<Rightarrow> string \<Rightarrow> string \<Rightarrow> string \<Rightarrow> string option \<Rightarrow> AnalysisResult \<times> api_event list" where
  "analyze_video_slice env video_path title prev_analysis_result custom_analysis_dimensions =
     (let failed = (\<lambda>e. (\<lparr> success = False, analysis_info = None,
                            message = Some (''analysis failed: '' @ str_exn e),
                            frames = None, audio_path = None, token_usage = 0 \<rparr>, []))
      in case extract_frames (sampler env) video_path (get_frames_per_slice env) of
           Inl e \<Rightarrow> failed e
         | Inr frs \<Rightarrow>
             (let pr = build_prompt title prev_analysis_result custom_analysis_dimensions
              in case encode_frames (read_image env) frs of
                   Inl e \<Rightarrow> failed e
                 | Inr urls \<Rightarrow>
                     (case retry_loop (create env) \<lparr> prompt = pr, image_urls = urls \<rparr> 0 None [] of
                        (Inr (result_content, tokens), trace) \<Rightarrow>
                          (\<lparr> success = True,
                             analysis_info = Some \<lparr> info_video_path = video_path,
                                                    analysis_result = result_content,
                                                    info_token_usage = tokens \<rparr>,
                             message = Some ''analysis finished'',
                             frames = Some frs, audio_path = Some [], token_usage = 0 \<rparr>, trace)
                      | (Inl last_error, trace) \<Rightarrow>
                          (\<lparr> success = False, analysis_info = None,
                             message = Some (''no valid analysis result. [reason: ''
                                               @ str_last_error last_error @ '']''),
                             frames = Some frs, audio_path = Some [], token_usage = 0 \<rparr>, trace))))"

text \<open>The waits and the attempts of a trace.\<close>

fun sleeps :: "api_event list \<Rightarrow> nat list" where
  "sleeps [] = []"
| "sleeps (Sleep s # es) = s # sleeps es"
| "sleeps (Request n # es) = sleeps es"

fun requests :: "api_event list \<Rightarrow> nat list" where
  "requests [] = []"
| "requests (Sleep s # es) = requests es"
| "requests (Request n # es) = n # requests es"

text \<open>
  Example environments.  \<open>ideal_linspace\<close> is \<open>np.linspace(0, stop, num, dtype=int)\<close> in
  exact arithmetic, rounded towards minus infinity; it is used for examples only, with
  two samples, where it gives the first and the last index as numpy does.
\<close>

definition ideal_linspace :: "int \<Rightarrow> int \<Rightarrow> exn + int list" where
  "ideal_linspace stop num =
     (if num < 0 then Inl (ValueError ''Number of samples must be non-negative'')
      else Inr (map (\<lambda>i. if num = 1 then 0 else (int i * stop) div (num - 1)) [0 ..< nat num]))"

definition sampler_unopened :: sampler_env where
  "sampler_unopened = \<lparr> VideoCapture = (\<lambda>p. unopened_capture), linspace = ideal_linspace,
       mkdtemp = Inr ''tmp'', imwrite = (\<lambda>p. None) \<rparr>"

definition sampler_ok :: sampler_env where
  "sampler_ok = \<lparr> VideoCapture = (\<lambda>p. \<lparr> frame_count = 10, readable = (\<lambda>n. 0 \<le> n \<and> n < 10) \<rparr>),
       linspace = ideal_linspace, mkdtemp = Inr ''tmp'', imwrite = (\<lambda>p. None) \<rparr>"

definition analyzer_failing :: analyzer_env where
  "analyzer_failing = \<lparr> frames_per_slice = None, sampler = sampler_ok,
       read_image = (\<lambda>p. Inr ''data''),
       create = (\<lambda>n req. Inl (Exception ''timeout'')) \<rparr>"

section \<open>Resource Lock: \<open>VideoProcessorTask.acquire_file_lock\<close> in \<open>tasks.py\<close>\<close>

text \<open>
  \<open>errno\<close> values, and the \<open>errno\<close> an exception carries when it is an \<open>IOError\<close>
  (\<open>OSError\<close>) or one of its subclasses; \<open>None\<close> for an exception outside that class.
\<close>

definition EACCES :: nat where "EACCES = 13"
definition EAGAIN :: nat where "EAGAIN = 11"

fun io_errno :: "exn \<Rightarrow> nat option option" where
  "io_errno (IOError en m) = Some en"
| "io_errno (PermissionError en m) = Some en"
| "io_errno (FileNotFoundError en m) = Some en"
| "io_errno (FileExistsError en m) = Some en"
| "io_errno e = None"

text \<open>
  The operating system's table of \<open>flock\<close> locks maps a lock file to its holder.  The
  calls that can fail for other reasons than contention are given by the environment:
  \<open>open(lock_file_path, 'w')\<close>, \<open>fcntl.flock\<close> itself, and writing the process id.
\<close>

type_synonym lock_table = "string \<Rightarrow> nat option"

record lock_env =
  open_file :: "string \<Rightarrow> exn option"
  flock_fault :: "string \<Rightarrow> exn option"
  write_pid :: "string \<Rightarrow> exn option"

definition LOCK_DIR :: string where
  "LOCK_DIR = ''/tmp/propainter_locks''"

text \<open>
  \<open>fcntl.flock(f, LOCK_EX | LOCK_NB)\<close> on a freshly opened file: it never waits; when the
  file is locked through another open file it raises with \<open>errno = EAGAIN\<close>.
\<close>

definition flock_nb :: "lock_env \<Rightarrow> lock_table \<Rightarrow> nat \<Rightarrow> string \<Rightarrow> exn + lock_table" where
  "flock_nb lenv tbl holder lock_file_path =
     (case flock_fault lenv lock_file_path of
        Some e \<Rightarrow> Inl e
      | None \<Rightarrow>
          (case tbl lock_file_path of
             Some h \<Rightarrow> Inl (IOError (Some EAGAIN) ''Resource temporarily unavailable'')
           | None \<Rightarrow> Inr (tbl(lock_file_path := Some holder))))"

text \<open>
  The two \<open>except\<close> clauses of \<open>acquire_file_lock\<close>: an \<open>IOError\<close> with \<open>errno\<close> \<open>EACCES\<close>
  or \<open>EAGAIN\<close> gives \<open>(False, None)\<close>; any other \<open>IOError\<close> and any other exception
  give \<open>(True, None)\<close>.
\<close>

definition lock_failure :: "exn \<Rightarrow> bool \<times> string option" where
  "lock_failure e =
     (case io_errno e of
        Some en \<Rightarrow> if en = Some EACCES \<or> en = Some EAGAIN then (False, None) else (True, None)
      | None \<Rightarrow> (True, None))"

text \<open>
  \<open>acquire_file_lock\<close> returns \<open>(acquired, lock file)\<close>; the lock file is represented by
  its path.  When writing the process id fails after the lock was taken, \<open>f.close()\<close> in
  the handler gives the lock up again.
\<close>

definition acquire_file_lock ::
  "lock_env \<Rightarrow> nat \<Rightarrow> lock_table \<Rightarrow> string \<Rightarrow> (bool \<times> string option) \<times> lock_table" where
  "acquire_file_lock lenv holder tbl lock_name =
     (let lock_file_path = path_join LOCK_DIR (lock_name @ ''.lock'')
      in case open_file lenv lock_file_path of
           Some e \<Rightarrow> (lock_failure e, tbl)
         | None \<Rightarrow>
             (case flock_nb lenv tbl holder lock_file_path of
                Inl e \<Rightarrow> (lock_failure e, tbl)
              | Inr tbl' \<Rightarrow>
                  (case write_pid lenv lock_file_path of
                     Some e \<Rightarrow> (lock_failure e, tbl)
                   | None \<Rightarrow> ((True, Some lock_file_path), tbl'))))"

definition release_file_lock :: "lock_table \<Rightarrow> string option \<Rightarrow> lock_table" where
  "release_file_lock tbl lock_file =
     (case lock_file of None \<Rightarrow> tbl | Some lock_file_path \<Rightarrow> tbl(lock_file_path := None))"

section \<open>What both pipelines share\<close>

text \<open>
  The result dictionary of \<open>MinIOHandler.upload_video_and_get_url\<close>: \<open>url\<close> and
  \<open>object_path\<close> on success, \<open>error\<close> otherwise.  The call itself never raises.
\<close>

datatype store_info = StoreUrl string string | StoreError string

text \<open>
  \<open>extract_file_path\<close> reads \<open>slice_store_info['url']\<close> and rebuilds the URL from scheme,
  host and path only; the model cuts the URL at the first \<open>?\<close> or \<open>#\<close>, for a URL
  with a lower-case scheme and no \<open>;\<close> parameters.
\<close>

definition extract_file_path :: "store_info \<Rightarrow> exn + string" where
  "extract_file_path slice_store_info =
     (case slice_store_info of
        StoreError m \<Rightarrow> Inl (KeyError ''url'')
      | StoreUrl url object_path \<Rightarrow> Inr (takeWhile (\<lambda>c. c \<noteq> CHR ''?'' \<and> c \<noteq> CHR ''#'') url))"

text \<open>What a pipeline does to the outside, in order.\<close>

datatype event =
    UpdateState nat nat "real option"
  | Renamed string string
  | Copied string string
  | CreateDataset string
  | SliceVideo string
  | Upload string string
  | Analyze string string string "string option"
  | CreateData string string string
  | Moved string string
  | Removed string
  | CleanupTemp string
  | FlockReleased string

text \<open>
  The collaborators of a pipeline.  \<open>detect_scenes\<close> stands for the checks, the
  \<open>ffprobe\<close> call and the scene detection at the head of \<open>slice_video\<close>; \<open>analyze\<close> is
  \<open>VideoAnalyzer.analyze_video_slice\<close> with arguments clip path, title, previous analysis
  text and custom dimensions.
\<close>

record pipeline_env =
  slice_conf :: slice_config
  detect_scenes :: "string \<Rightarrow> exn + video_info \<times> scene list"
  run_ffmpeg :: "string \<Rightarrow> real \<Rightarrow> real \<Rightarrow> exn option"
  create_dataset :: "string \<Rightarrow> exn + string"
  upload_video_and_get_url :: "string \<Rightarrow> string \<Rightarrow> bool \<times> store_info"
  analyze :: "string \<Rightarrow> string \<Rightarrow> string \<Rightarrow> string option \<Rightarrow> AnalysisResult"
  create_data :: "string \<Rightarrow> string \<Rightarrow> string \<Rightarrow> exn option"
  abspath :: "string \<Rightarrow> string"

record SliceResult =
  slice_success :: bool
  result_slice_info :: "slice_info option"
  slice_message :: "string option"
  result_frames_count :: int
  result_duration :: real

text \<open>
  \<open>VideoSlicer.slice_video\<close> with the slicer's attribute \<open>self.slice_info\<close> as explicit
  state: it is assigned only when slicing succeeded; every exception ends in a
  \<open>SliceResult\<close> with \<open>success = False\<close>.
\<close>

definition slice_video ::
  "pipeline_env \<Rightarrow> slice_info option \<Rightarrow> video_file \<Rightarrow> SliceResult \<times> slice_info option" where
  "slice_video penv self_slice_info v =
     (case detect_scenes penv (file_path v) of
        Inl e \<Rightarrow>
          (\<lparr> slice_success = False, result_slice_info = None,
             slice_message = Some (''video slicing failed: '' @ str_exn e),
             result_frames_count = 0, result_duration = 0 \<rparr>, self_slice_info)
      | Inr (info, scenes) \<Rightarrow>
          (let si = perform_slicing (slice_conf penv) (run_ffmpeg penv) v scenes info
           in (\<lparr> slice_success = True, result_slice_info = Some si, slice_message = None,
                 result_frames_count = vi_frame_count info, result_duration = vi_duration info \<rparr>,
               Some si)))"

text \<open>\<open>get_slice_paths\<close>: \<open>self.slice_info.get("segments", [])\<close> fails on \<open>None\<close>.\<close>

definition get_slice_paths :: "slice_info option \<Rightarrow> exn + string list" where
  "get_slice_paths self_slice_info =
     (case self_slice_info of
        None \<Rightarrow> Inl (AttributeError ''NoneType object has no attribute get'')
      | Some si \<Rightarrow> Inr (map output_path (segments si)))"

text \<open>The state a pipeline run threads through: the trace and the slicer's attribute.\<close>

record run_state =
  events :: "event list"
  slicer_info :: "slice_info option"

definition emit :: "event \<Rightarrow> 'a run_state_scheme \<Rightarrow> 'a run_state_scheme" where
  "emit ev st = st\<lparr> events := events st @ [ev] \<rparr>"

section \<open>Video Pipeline, queue-driven variant: \<open>process_video_task\<close> in \<open>tasks.py\<close>\<close>

record task_input =
  video_file_path :: string
  custom_dimensions :: "string option"
  original_video_name :: "string option"
  processing_uuid :: "string option"

text \<open>
  What the task needs besides the shared collaborators: the lock environment and the
  identity under which this worker locks, \<open>uuid.uuid4()\<close>, \<open>app.conf.TEMP_DIR\<close>, the
  \<open>os.path\<close> functions, the login of the knowledge-base handler, the construction of the
  analyzer, \<open>shutil.copy2\<close>, \<open>os.path.exists\<close> and \<open>os.remove\<close>.  The arguments
  \<open>knowledge_base_id\<close> and \<open>user_config\<close> only set entries of the configuration that the
  collaborators read (lines 203-215); they are part of the collaborators here.
\<close>

record task_env =
  pipe :: pipeline_env
  lck :: lock_env
  holder_id :: nat
  uuid4 :: string
  TEMP_DIR :: string
  os_basename :: "string \<Rightarrow> string"
  os_splitext_ext :: "string \<Rightarrow> string"
  login_sync :: "exn option"
  analyzer_init :: "exn option"
  copy2 :: "string \<Rightarrow> string \<Rightarrow> exn option"
  path_exists :: "string \<Rightarrow> bool"
  os_remove :: "string \<Rightarrow> exn option"

record task_state = run_state +
  locks :: lock_table

text \<open>
  The result dictionary; its \<open>status\<close> entry is \<open>result_status\<close>.  \<open>Skipped\<close> carries
  message, video name and processing uuid; \<open>Success\<close> video name, processing uuid, dataset
  id and number of slices; \<open>Failed\<close> error text, video name and processing uuid.
\<close>

datatype task_result =
    Skipped string string string
  | Success string string string nat
  | Failed string string string

fun result_status :: "task_result \<Rightarrow> string" where
  "result_status (Skipped m n u) = ''skipped''"
| "result_status (Success n u d t) = ''success''"
| "result_status (Failed e n u) = ''failed''"

text \<open>Python's \<open>x or y\<close> on an optional string: \<open>None\<close> and the empty string are falsy.\<close>

definition py_or :: "string option \<Rightarrow> string \<Rightarrow> string" where
  "py_or x y = (case x of None \<Rightarrow> y | Some s \<Rightarrow> if s = [] then y else s)"

definition lock_name_of :: "string \<Rightarrow> string" where
  "lock_name_of video_name =
     ''video_process_'' @
       map (\<lambda>c. if c = CHR '' '' \<or> c = CHR ''.'' then CHR ''_'' else c) video_name"

definition ingest_question :: "string \<Rightarrow> string \<Rightarrow> string" where
  "ingest_question text file_url = text @ [CHR 0x0A, CHR 0x0A] @ file_url"

text \<open>
  The segment loop (lines 283-331): \<open>prev\<close> is \<open>prev_analysis_result\<close>, assigned before
  the loop and updated after a successful analysis; a failed upload and a failed
  analysis \<open>continue\<close> with the next slice and leave it unchanged.  The first component
  of the result is the exception that left the loop, if any.
\<close>

fun task_loop ::
  "pipeline_env \<Rightarrow> string \<Rightarrow> string \<Rightarrow> string option \<Rightarrow> string \<Rightarrow> nat \<Rightarrow> nat \<Rightarrow> string list
     \<Rightarrow> string \<Rightarrow> task_state \<Rightarrow> exn option \<times> task_state" where
  "task_loop penv video_name puuid dims dataset_id total_slices idx [] prev st = (None, st)"
| "task_loop penv video_name puuid dims dataset_id total_slices idx (slice_path # rest) prev st =
     (let progress = 30 + (real idx / real total_slices * 60);
          st1 = emit (UpdateState idx total_slices (Some progress)) st;
          object_path = puuid @ ''/slice_'' @ str_nat idx @ ''.mp4'';
          st2 = emit (Upload slice_path object_path) st1
      in case upload_video_and_get_url penv slice_path object_path of
           (ok, slice_store_info) \<Rightarrow>
             if \<not> ok then
               task_loop penv video_name puuid dims dataset_id total_slices (Suc idx) rest prev st2
             else
               (case extract_file_path slice_store_info of
                  Inl e \<Rightarrow> (Some e, st2)
                | Inr file_url \<Rightarrow>
                    (let res = analyze penv slice_path video_name prev dims;
                         st3 = emit (Analyze slice_path video_name prev dims) st2
                     in if \<not> success res then
                          task_loop penv video_name puuid dims dataset_id total_slices (Suc idx)
                            rest prev st3
                        else
                          (case analysis_info res of
                             None \<Rightarrow> (Some (TypeError ''NoneType object is not subscriptable''), st3)
                           | Some ai \<Rightarrow>
                               (let question = ingest_question (analysis_result ai) file_url;
                                    answer = abspath penv slice_path;
                                    st4 = emit (CreateData dataset_id question answer) st3
                                in case create_data penv dataset_id question answer of
                                     Some e \<Rightarrow> (Some e, st4)
                                   | None \<Rightarrow>
                                       task_loop penv video_name puuid dims dataset_id total_slices
                                         (Suc idx) rest (analysis_result ai) st4)))))"

text \<open>Slicing and the segment loop of the task (lines 259-331).\<close>

definition task_segments ::
  "task_env \<Rightarrow> task_input \<Rightarrow> string \<Rightarrow> string \<Rightarrow> string \<Rightarrow> string \<Rightarrow> task_state
     \<Rightarrow> (exn + nat) \<times> task_state" where
  "task_segments tenv inp video_name puuid new_video_path dataset_id st =
     (let v = \<lparr> file_path = new_video_path, parent_name = os_basename tenv (TEMP_DIR tenv),
                stem = puuid \<rparr>;
          sliced = slice_video (pipe tenv) (slicer_info st) v;
          st1 = emit (SliceVideo new_video_path) (st\<lparr> slicer_info := snd sliced \<rparr>);
          st2 = emit (UpdateState 30 100 None) st1
      in case get_slice_paths (slicer_info st2) of
           Inl e \<Rightarrow> (Inl e, st2)
         | Inr slice_paths \<Rightarrow>
             (let total_slices = length slice_paths
              in case task_loop (pipe tenv) video_name puuid (custom_dimensions inp) dataset_id
                        total_slices 1 slice_paths [] st2 of
                   (Some e, st3) \<Rightarrow> (Inl e, st3)
                 | (None, st3) \<Rightarrow> (Inr total_slices, st3)))"

text \<open>
  The inner \<open>try\<close> of the task (lines 187-367); its \<open>except Exception\<close> turns every
  exception into a result with status \<open>failed\<close>.
\<close>

definition task_body ::
  "task_env \<Rightarrow> task_input \<Rightarrow> string \<Rightarrow> string \<Rightarrow> task_state \<Rightarrow> task_result \<times> task_state" where
  "task_body tenv inp video_name puuid st =
     (let failed = (\<lambda>e s. (Failed (str_exn e) video_name puuid, s));
          st1 = emit (UpdateState 1 100 None) st
      in case login_sync tenv of
           Some e \<Rightarrow> failed e st1
         | None \<Rightarrow>
        (case analyzer_init tenv of
           Some e \<Rightarrow> failed e st1
         | None \<Rightarrow>
        (let file_extension = os_splitext_ext tenv video_name;
             new_video_path = path_join (TEMP_DIR tenv) (puuid @ file_extension);
             st2 = emit (Copied (video_file_path inp) new_video_path) st1
         in case copy2 tenv (video_file_path inp) new_video_path of
              Some e \<Rightarrow> failed e st2
            | None \<Rightarrow>
           (let st3 = emit (CreateDataset puuid) (emit (UpdateState 10 100 None) st2)
            in case create_dataset (pipe tenv) puuid of
                 Inl e \<Rightarrow> failed e st3
               | Inr dataset_id \<Rightarrow>
              (let st4 = emit (UpdateState 20 100 None) st3
               in case task_segments tenv inp video_name puuid new_video_path dataset_id st4 of
                    (Inl e, st5) \<Rightarrow> failed e st5
                  | (Inr total_slices, st5) \<Rightarrow>
                      (let st6 = emit (UpdateState 95 100 None) st5;
                           done = Success video_name puuid dataset_id total_slices
                       in if path_exists tenv new_video_path then
                            (case os_remove tenv new_video_path of
                               Some e \<Rightarrow> failed e (emit (Removed new_video_path) st6)
                             | None \<Rightarrow> (done, emit (Removed new_video_path) st6))
                          else (done, st6)))))))"

text \<open>
  \<open>process_video_task\<close>: the lock is tried first; without it the task returns
  \<open>skipped\<close> at once.  The \<open>finally\<close> releases the lock \<open>if lock_file\<close>.
\<close>

definition process_video_task ::
  "task_env \<Rightarrow> task_input \<Rightarrow> task_state \<Rightarrow> task_result \<times> task_state" where
  "process_video_task tenv inp st =
     (let video_name = py_or (original_video_name inp) (os_basename tenv (video_file_path inp));
          puuid = py_or (processing_uuid inp) (uuid4 tenv);
          lock_name = lock_name_of video_name;
          acq = acquire_file_lock (lck tenv) (holder_id tenv) (locks st) lock_name;
          lock_acquired = fst (fst acq);
          lock_file = snd (fst acq);
          st1 = st\<lparr> locks := snd acq \<rparr>
      in if \<not> lock_acquired then
           (Skipped ''the video is being processed by another task'' video_name puuid, st1)
         else
           (case task_body tenv inp video_name puuid st1 of
              (res, st2) \<Rightarrow>
                (case lock_file of
                   None \<Rightarrow> (res, st2)
                 | Some f \<Rightarrow>
                     (res, emit (FlockReleased f)
                             (st2\<lparr> locks := release_file_lock (locks st2) lock_file \<rparr>)))))"

section \<open>Video Pipeline, in-process variant: \<open>VideoProcessor.process_single_video\<close> in \<open>main.py\<close>\<close>

text \<open>
  The entry \<open>self.processing_status[video_uuid]\<close>.  The run state keeps its current
  value and the list of all values it has taken, oldest first.
\<close>

record processing_status =
  status :: string
  progress :: real
  error :: "string option"

record main_state = run_state +
  current :: processing_status
  history :: "processing_status list"

definition set_status :: "processing_status \<Rightarrow> main_state \<Rightarrow> main_state" where
  "set_status s st = st\<lparr> current := s, history := history st @ [s] \<rparr>"

definition set_progress :: "real \<Rightarrow> main_state \<Rightarrow> main_state" where
  "set_progress x st = set_status ((current st)\<lparr> progress := x \<rparr>) st"

text \<open>
  The video path by its parts: \<open>os.path.dirname\<close>, the base name of that directory,
  \<open>os.path.basename\<close> and \<open>Path(video_path).suffix\<close>.
\<close>

record video_input =
  in_dir :: string
  in_dir_base :: string
  in_name :: string
  in_suffix :: string

record main_env =
  mpipe :: pipeline_env
  uuid4_first :: string
  uuid4_second :: string
  exists_path :: "string \<Rightarrow> bool"
  dir_writable :: "string \<Rightarrow> bool"
  os_rename :: "string \<Rightarrow> string \<Rightarrow> exn option"
  move_finished :: "string \<Rightarrow> string \<Rightarrow> exn option"

record main_result =
  r_status :: string
  r_video_name :: string
  r_dataset_id :: string
  r_total_slices :: nat

text \<open>
  Renaming the source to \<open>{uuid}{ext}\<close> (lines 99-134).  Only \<open>FileExistsError\<close> is
  handled, by one rename to a name from a second uuid; every other exception is
  re-raised.  The result is the new path and its stem.
\<close>

definition rename_source :: "main_env \<Rightarrow> video_input \<Rightarrow> exn + string \<times> string" where
  "rename_source menv inp =
     (let source = path_join (in_dir inp) (in_name inp);
          new_video_path = path_join (in_dir inp) (uuid4_first menv @ in_suffix inp);
          attempt =
            (if exists_path menv new_video_path then
               Inl (FileExistsError None (''target exists: '' @ new_video_path))
             else if \<not> exists_path menv source then
               Inl (FileNotFoundError None (''source missing: '' @ source))
             else if \<not> dir_writable menv (in_dir inp) then
               Inl (PermissionError None (''no write permission: '' @ new_video_path))
             else
               (case os_rename menv source new_video_path of
                  Some e \<Rightarrow> Inl e
                | None \<Rightarrow> Inr (new_video_path, uuid4_first menv)))
      in case attempt of
           Inl (FileExistsError en m) \<Rightarrow>
             (let second_path = path_join (in_dir inp) (uuid4_second menv @ in_suffix inp)
              in case os_rename menv source second_path of
                   Some e \<Rightarrow> Inl e
                 | None \<Rightarrow> Inr (second_path, uuid4_second menv))
         | Inl e \<Rightarrow> Inl e
         | Inr r \<Rightarrow> Inr r)"

text \<open>
  \<open>total_slices = len(slices.slice_info)\<close>: \<open>slice_info\<close> is the dictionary built by
  \<open>_perform_slicing\<close>, and \<open>len\<close> of a dictionary is the number of its keys.
\<close>

definition slice_info_keys :: "string list" where
  "slice_info_keys = [''original_video'', ''total_duration'', ''total_frames'', ''fps'', ''segments'']"

definition len_slice_info :: "slice_info \<Rightarrow> nat" where
  "len_slice_info si = length slice_info_keys"

text \<open>
  The segment loop (lines 173-199).  \<open>pre_result\<close> is the local variable of that name:
  each iteration assigns the empty string to it before the analysis call, and the
  analysis text after the call.  An upload that failed has no \<open>url\<close> entry, and a failed
  analysis has \<open>analysis_info = None\<close>: both raise and end the loop.
\<close>

fun main_loop ::
  "pipeline_env \<Rightarrow> string \<Rightarrow> string \<Rightarrow> string \<Rightarrow> nat \<Rightarrow> nat \<Rightarrow> string list \<Rightarrow> string
     \<Rightarrow> main_state \<Rightarrow> exn option \<times> main_state" where
  "main_loop penv video_name video_uuid dataset_id total_slices idx [] pre_result st = (None, st)"
| "main_loop penv video_name video_uuid dataset_id total_slices idx (slice_path # rest) pre_result st =
     (let object_path = video_uuid @ ''/slice_'' @ str_nat idx @ ''.mp4'';
          st1 = emit (Upload slice_path object_path) st
      in case upload_video_and_get_url penv slice_path object_path of
           (ok, slice_store_info) \<Rightarrow>
             (case extract_file_path slice_store_info of
                Inl e \<Rightarrow> (Some e, st1)
              | Inr file_url \<Rightarrow>
                  (let pre_result = [];
                       res = analyze penv slice_path video_name pre_result None;
                       st2 = emit (Analyze slice_path video_name pre_result None) st1
                   in case analysis_info res of
                        None \<Rightarrow> (Some (TypeError ''NoneType object is not subscriptable''), st2)
                      | Some ai \<Rightarrow>
                          (let pre_result = analysis_result ai;
                               question = ingest_question (analysis_result ai) file_url;
                               answer = abspath penv slice_path;
                               st3 = emit (CreateData dataset_id question answer) st2
                           in case create_data penv dataset_id question answer of
                                Some e \<Rightarrow> (Some e, st3)
                              | None \<Rightarrow>
                                  main_loop penv video_name video_uuid dataset_id total_slices
                                    (Suc idx) rest pre_result
                                    (set_progress (50 + (real idx / real total_slices * 50)) st3)))))"

text \<open>The body of the outer \<open>try\<close> (lines 99-234).\<close>

definition main_body ::
  "main_env \<Rightarrow> video_input \<Rightarrow> main_state \<Rightarrow> (exn + main_result) \<times> main_state" where
  "main_body menv inp st =
     (let video_name = in_name inp;
          video_uuid = uuid4_first menv
      in case rename_source menv inp of
           Inl e \<Rightarrow> (Inl e, st)
         | Inr (new_video_path, new_stem) \<Rightarrow>
        (let st1 = emit (CreateDataset video_uuid)
                     (emit (Renamed (path_join (in_dir inp) (in_name inp)) new_video_path) st)
         in case create_dataset (mpipe menv) video_uuid of
              Inl e \<Rightarrow> (Inl e, st1)
            | Inr dataset_id \<Rightarrow>
           (let st2 = set_progress 35 st1;
                v = \<lparr> file_path = new_video_path, parent_name = in_dir_base inp, stem = new_stem \<rparr>;
                sliced = slice_video (mpipe menv) (slicer_info st2) v;
                st3 = set_progress 50
                        (emit (SliceVideo new_video_path) (st2\<lparr> slicer_info := snd sliced \<rparr>))
            in case result_slice_info (fst sliced) of
                 None \<Rightarrow> (Inl (TypeError ''object of type NoneType has no len()''), st3)
               | Some si \<Rightarrow>
              (let total_slices = len_slice_info si
               in case get_slice_paths (slicer_info st3) of
                    Inl e \<Rightarrow> (Inl e, st3)
                  | Inr slice_paths \<Rightarrow>
                 (case main_loop (mpipe menv) video_name video_uuid dataset_id total_slices 1
                         slice_paths [] st3 of
                    (Some e, st4) \<Rightarrow> (Inl e, st4)
                  | (None, st4) \<Rightarrow>
                      (let st5 = set_status ((current st4)\<lparr> status := ''completed'',
                                                            progress := 100 \<rparr>) st4;
                           target = path_join (finish_dir (slice_conf (mpipe menv))) (in_name inp);
                           st6 = emit (Moved new_video_path target) st5
                       in case move_finished menv new_video_path target of
                            Some e \<Rightarrow> (Inl e, st6)
                          | None \<Rightarrow>
                              (Inr \<lparr> r_status = ''success'', r_video_name = video_name,
                                     r_dataset_id = dataset_id, r_total_slices = total_slices \<rparr>,
                               st6)))))))"

text \<open>
  \<open>process_single_video\<close>: the status entry is created with progress 0; an exception of
  the body marks it \<open>failed\<close> and is re-raised (\<open>Inl\<close>); the \<open>finally\<close> cleans up.
\<close>

definition process_single_video ::
  "main_env \<Rightarrow> video_input \<Rightarrow> run_state \<Rightarrow> (exn + main_result) \<times> main_state" where
  "process_single_video menv inp st0 =
     (let initial = \<lparr> status = ''processing'', progress = 0, error = None \<rparr>;
          st = \<lparr> events = events st0, slicer_info = slicer_info st0,
                 current = initial, history = [initial] \<rparr>
      in case main_body menv inp st of
           (Inl e, st1) \<Rightarrow>
             (Inl e, emit (CleanupTemp (uuid4_first menv))
                      (set_status ((current st1)\<lparr> status := ''failed'',
                                                   error := Some (str_exn e) \<rparr>) st1))
         | (Inr r, st1) \<Rightarrow> (Inr r, emit (CleanupTemp (uuid4_first menv)) st1))"

section \<open>Batch Orchestrator: \<open>VideoProcessor.process_all_videos_batch\<close> in \<open>main.py\<close>\<close>

text \<open>
  An entry of the final \<open>results\<close> list: the result dictionary of a pipeline that
  returned, or the \<open>failed\<close> dictionary (video name, error text) the orchestrator writes.
\<close>

datatype batch_entry = Returned main_result | RecordedFailed string string

text \<open>
  \<open>for video, res in zip(batch, batch_results)\<close> of one retry round (lines 299-311).
  An exception is recorded only in the last round; a result that is not an exception is
  appended and followed by \<open>break\<close>, which leaves this \<open>for\<close> loop: the rest of the
  batch is not looked at in this round.
\<close>

fun scan_batch_results ::
  "nat \<Rightarrow> nat \<Rightarrow> (string \<times> (exn + main_result)) list \<Rightarrow> batch_entry list \<Rightarrow> batch_entry list" where
  "scan_batch_results retry max_rounds [] results = results"
| "scan_batch_results retry max_rounds ((video, res) # rest) results =
     (case res of
        Inl e \<Rightarrow>
          scan_batch_results retry max_rounds rest
            (if int retry = int max_rounds - 1
             then results @ [RecordedFailed video (str_exn e)] else results)
      | Inr r \<Rightarrow> results @ [Returned r])"

text \<open>
  \<open>for retry in range(max_retries)\<close>: every round runs the whole batch again
  (\<open>gather(..., return_exceptions=True)\<close>); \<open>run video retry\<close> is what the pipeline of
  \<open>video\<close> does in round \<open>retry\<close>: it raises or returns its result.
\<close>

definition retry_batch ::
  "(string \<Rightarrow> nat \<Rightarrow> exn + main_result) \<Rightarrow> nat \<Rightarrow> string list \<Rightarrow> batch_entry list \<Rightarrow> batch_entry list" where
  "retry_batch run max_rounds batch results =
     foldl (\<lambda>acc retry.
              scan_batch_results retry max_rounds (zip batch (map (\<lambda>video. run video retry) batch)) acc)
       results [0 ..< max_rounds]"

text \<open>\<open>video_files[i:i + batch_size]\<close> for \<open>i\<close> in \<open>range(0, len(video_files), batch_size)\<close>.\<close>

definition batches :: "nat \<Rightarrow> string list \<Rightarrow> string list list" where
  "batches batch_size video_files =
     map (\<lambda>k. take batch_size (drop (k * batch_size) video_files))
       [0 ..< (length video_files + batch_size - 1) div batch_size]"

text \<open>
  \<open>process_all_videos_batch\<close> from the list of video files on; \<open>range\<close> raises for a
  step of zero.  The parameter \<open>max_concurrent\<close> is not used by the source.  The update
  of the tag mappings before the loop and the batch progress after each batch do not
  touch \<open>results\<close> and are left out.
\<close>

definition process_all_videos_batch ::
  "(string \<Rightarrow> nat \<Rightarrow> exn + main_result) \<Rightarrow> string list \<Rightarrow> nat \<Rightarrow> nat \<Rightarrow> exn + batch_entry list" where
  "process_all_videos_batch run video_files batch_size max_rounds =
     (if batch_size = 0 then Inl (ValueError ''range() arg 3 must not be zero'')
      else Inr (foldl (\<lambda>results batch. retry_batch run max_rounds batch results) []
                  (batches batch_size video_files)))"

text \<open>The entries of a result list that belong to a video.\<close>

fun entry_video :: "batch_entry \<Rightarrow> string" where
  "entry_video (Returned r) = r_video_name r"
| "entry_video (RecordedFailed video e) = video"

definition entries_of :: "string \<Rightarrow> batch_entry list \<Rightarrow> batch_entry list" where
  "entries_of video results = filter (\<lambda>en. entry_video en = video) results"

section \<open>Example runs\<close>

text \<open>
  A description service that answers every request with the same text, and the
  collaborators of a pipeline in which every call succeeds; the scenes of the video are
  a parameter.
\<close>

definition analyzer_answering :: analyzer_env where
  "analyzer_answering = \<lparr> frames_per_slice = None, sampler = sampler_ok,
       read_image = (\<lambda>p. Inr ''data''),
       create = (\<lambda>n req. Inr (Some \<lparr> choices = [\<lparr> choice_message = Some \<lparr> content = Some ''a car drives'' \<rparr> \<rparr>],
                                       usage = Usage 7 \<rparr>)) \<rparr>"

definition penv_ok :: "scene list \<Rightarrow> pipeline_env" where
  "penv_ok scenes = \<lparr> slice_conf = cfg0,
       detect_scenes = (\<lambda>p. Inr (info0, scenes)),
       run_ffmpeg = ffmpeg_ok,
       create_dataset = (\<lambda>name. Inr ''dataset1''),
       upload_video_and_get_url = (\<lambda>p object_path. (True, StoreUrl (''http://store/'' @ object_path @ ''?sig=1'') object_path)),
       analyze = (\<lambda>p t prev dims. fst (analyze_video_slice analyzer_answering p t prev dims)),
       create_data = (\<lambda>c q a. None),
       abspath = (\<lambda>p. ''/work/'' @ p) \<rparr>"

definition menv_ok :: "scene list \<Rightarrow> main_env" where
  "menv_ok scenes = \<lparr> mpipe = penv_ok scenes, uuid4_first = ''u1'', uuid4_second = ''u2'',
       exists_path = (\<lambda>p. p = ''in/v.mp4''), dir_writable = (\<lambda>d. True),
       os_rename = (\<lambda>a b. None), move_finished = (\<lambda>a b. None) \<rparr>"

definition input0 :: video_input where
  "input0 = \<lparr> in_dir = ''in'', in_dir_base = ''in'', in_name = ''v.mp4'', in_suffix = ''.mp4'' \<rparr>"

definition state0 :: run_state where
  "state0 = \<lparr> events = [], slicer_info = None \<rparr>"

definition lenv_ok :: lock_env where
  "lenv_ok = \<lparr> open_file = (\<lambda>p. None), flock_fault = (\<lambda>p. None), write_pid = (\<lambda>p. None) \<rparr>"

definition tenv_ok :: "scene list \<Rightarrow> task_env" where
  "tenv_ok scenes = \<lparr> pipe = penv_ok scenes, lck = lenv_ok, holder_id = 1, uuid4 = ''u1'',
       TEMP_DIR = ''temp'', os_basename = (\<lambda>p. if p = ''temp'' then ''temp'' else ''v.mp4''), os_splitext_ext = (\<lambda>n. ''.mp4''),
       login_sync = None, analyzer_init = None, copy2 = (\<lambda>a b. None),
       path_exists = (\<lambda>p. True), os_remove = (\<lambda>p. None) \<rparr>"

definition task_input0 :: task_input where
  "task_input0 = \<lparr> video_file_path = ''upload/v.mp4'', custom_dimensions = None,
       original_video_name = Some ''v.mp4'', processing_uuid = Some ''job1'' \<rparr>"

definition task_state0 :: "lock_table \<Rightarrow> task_state" where
  "task_state0 tbl = \<lparr> events = [], slicer_info = None, locks = tbl \<rparr>"

text \<open>Releasing the lock is the only event of its kind.\<close>

fun is_release :: "event \<Rightarrow> bool" where
  "is_release (FlockReleased f) = True"
| "is_release ev = False"

definition task_video_name :: "task_env \<Rightarrow> task_input \<Rightarrow> string" where
  "task_video_name tenv inp = py_or (original_video_name inp) (os_basename tenv (video_file_path inp))"

definition task_lock_path :: "task_env \<Rightarrow> task_input \<Rightarrow> string" where
  "task_lock_path tenv inp = path_join LOCK_DIR (lock_name_of (task_video_name tenv inp) @ ''.lock'')"

definition lenv_io_error :: lock_env where
  "lenv_io_error = \<lparr> open_file = (\<lambda>p. Some (IOError (Some 24) ''Too many open files'')),
       flock_fault = (\<lambda>p. None), write_pid = (\<lambda>p. None) \<rparr>"

text \<open>
  A later state extends an earlier one quietly when the lock table is the same and the
  trace has only grown, by events none of which releases a lock.
\<close>

definition extends_quietly :: "task_state \<Rightarrow> task_state \<Rightarrow> bool" where
  "extends_quietly st st' \<longleftrightarrow>
     locks st' = locks st \<and>
     (\<exists>new. events st' = events st @ new \<and> (\<forall>ev \<in> set new. \<not> is_release ev))"

definition held_by_other :: lock_table where
  "held_by_other = (\<lambda>p. if p = ''/tmp/propainter_locks/video_process_v_mp4.lock'' then Some 2 else None)"

definition tenv_io_error :: task_env where
  "tenv_io_error = (tenv_ok [])\<lparr> lck := lenv_io_error \<rparr>"

text \<open>The analysis calls of a trace: clip path and previous-analysis text of each.\<close>

fun analysis_calls :: "event list \<Rightarrow> (string \<times> string) list" where
  "analysis_calls [] = []"
| "analysis_calls (Analyze p t prev dims # evs) = (p, prev) # analysis_calls evs"
| "analysis_calls (ev # evs) = analysis_calls evs"

text \<open>The progress values a trace reports through \<open>update_state\<close>.\<close>

fun reported_progress :: "event list \<Rightarrow> real list" where
  "reported_progress [] = []"
| "reported_progress (UpdateState c t (Some x) # evs) = x # reported_progress evs"
| "reported_progress (ev # evs) = reported_progress evs"

text \<open>The uploads and the ingestions of a trace.\<close>

fun uploads :: "event list \<Rightarrow> string list" where
  "uploads [] = []"
| "uploads (Upload p object_path # evs) = p # uploads evs"
| "uploads (ev # evs) = uploads evs"

fun ingestions :: "event list \<Rightarrow> string list" where
  "ingestions [] = []"
| "ingestions (CreateData c q a # evs) = a # ingestions evs"
| "ingestions (ev # evs) = ingestions evs"

text \<open>
  Pipelines for the orchestrator examples.  In \<open>run_third_fails_twice\<close> the video
  \<open>v3.mp4\<close> raises in the first two rounds and returns in the third, every other video
  returns in every round.  In \<open>run_once_only\<close> a video returns in the first round and
  raises afterwards, its source file having been moved away by the first run.
\<close>

definition returned_ok :: "string \<Rightarrow> main_result" where
  "returned_ok video = \<lparr> r_status = ''success'', r_video_name = video, r_dataset_id = ''dataset1'',
                          r_total_slices = 5 \<rparr>"

definition run_third_fails_twice :: "string \<Rightarrow> nat \<Rightarrow> exn + main_result" where
  "run_third_fails_twice video retry =
     (if video = ''v3.mp4'' \<and> retry < 2 then Inl (Exception ''description service unavailable'')
      else Inr (returned_ok video))"

definition run_once_only :: "string \<Rightarrow> nat \<Rightarrow> exn + main_result" where
  "run_once_only video retry =
     (if retry = 0 then Inr (returned_ok video)
      else Inl (FileNotFoundError None ''source missing''))"

text \<open>
  The progress value of the segment loop, and two invariants of the status history used
  in the proofs about it: \<open>loop_inv T k\<close> holds up to the \<open>k\<close>-th pass of a loop that
  divides by \<open>T\<close>, \<open>job_ok T\<close> is what remains true to the end of the job.
\<close>

definition loop_progress :: "nat \<Rightarrow> nat \<Rightarrow> real" where
  "loop_progress total_slices idx = 50 + (real idx / real total_slices * 50)"

definition loop_inv :: "nat \<Rightarrow> nat \<Rightarrow> main_state \<Rightarrow> bool" where
  "loop_inv T k st \<longleftrightarrow>
     sorted (map progress (history st)) \<and>
     (\<forall>s \<in> set (history st).
        progress s \<le> progress (current st) \<and>
        progress s \<in> {0, 35, 50} \<union> loop_progress T ` {1..k}) \<and>
     current st \<in> set (history st) \<and> progress (current st) \<le> loop_progress T k"

definition job_ok :: "nat \<Rightarrow> main_state \<Rightarrow> bool" where
  "job_ok T st \<longleftrightarrow>
     sorted (map progress (history st)) \<and>
     (\<forall>s \<in> set (history st).
        progress s \<le> progress (current st) \<and> 0 \<le> progress s \<and> progress s \<le> 100 \<and>
        progress s \<in> {0, 35, 50, 100} \<union> loop_progress T ` {1..T}) \<and>
     current st \<in> set (history st)"

text \<open>
  Example runs of the in-process pipeline: a video of five one-second scenes whose move
  to the finished directory fails, and a video of six one-second scenes.
\<close>

definition five_scenes :: "scene list" where
  "five_scenes = [(0, 25), (25, 50), (50, 75), (75, 100), (100, 125)]"

definition six_scenes :: "scene list" where
  "six_scenes = [(0, 25), (25, 50), (50, 75), (75, 100), (100, 125), (125, 150)]"

definition menv_move_fails :: main_env where
  "menv_move_fails = (menv_ok five_scenes)\<lparr> move_finished := (\<lambda>a b. Some (IOError (Some 28) ''No space left on device'')) \<rparr>"

section \<open>Segmenter: properties\<close>

lemmas example_defs = cfg0_def ffmpeg_ok_def v0_def info0_def


lemma slice_scene_duration:
  "slice_scene cfg ffmpeg v info i sc = Inr (Some seg) \<Longrightarrow> get_min_duration cfg \<le> duration seg"
  by (auto simp: slice_scene_def slice_scene_traced_def Let_def split: if_splits option.splits)

lemma slicing_loop_duration:
  "\<forall>seg \<in> set segs. get_min_duration cfg \<le> duration seg \<Longrightarrow>
   \<forall>seg \<in> set (slicing_loop cfg ffmpeg v info i scenes segs). get_min_duration cfg \<le> duration seg"
proof (induction scenes arbitrary: i segs)
  case Nil
  then show ?case by simp
next
  case (Cons sc scenes)
  show ?case
  proof (cases "slice_scene cfg ffmpeg v info i sc")
    case (Inl e)
    with Cons show ?thesis by simp
  next
    case (Inr r)
    show ?thesis
    proof (cases r)
      case None
      with Inr Cons show ?thesis by simp
    next
      case (Some seg)
      with Inr have "get_min_duration cfg \<le> duration seg"
        using slice_scene_duration by blast
      with Cons.prems have "\<forall>s \<in> set (segs @ [seg]). get_min_duration cfg \<le> duration s"
        by simp
      from Cons.IH [OF this] Inr Some show ?thesis by simp
    qed
  qed
qed

subsection \<open>Numbering of the surviving segments\<close>

lemma slice_scene_index:
  "slice_scene cfg ffmpeg v info j sc = Inr (Some s) \<Longrightarrow> index s = j + 1"
  by (auto simp: slice_scene_def slice_scene_traced_def Let_def split: if_splits option.splits)

lemma slice_scene_frames:
  "slice_scene cfg ffmpeg v info j sc = Inr (Some s) \<Longrightarrow> (start_frame s, end_frame s) = sc"
  by (auto simp: slice_scene_def slice_scene_traced_def Let_def split: if_splits option.splits)

lemma slice_scene_start_time:
  "slice_scene cfg ffmpeg v info j sc = Inr (Some s) \<Longrightarrow>
     start_time s = real_of_int (fst sc) / vi_fps info"
  by (auto simp: slice_scene_def slice_scene_traced_def Let_def split: if_splits option.splits)

text \<open>
  A key of the segments that follows a strictly increasing key of the (numbered) scenes
  is strictly increasing along the result of the loop.
\<close>

lemma slicing_loop_sorted_key:
  fixes k :: "segment_info \<Rightarrow> 'a::linorder" and g :: "nat \<Rightarrow> scene \<Rightarrow> 'a"
  assumes key: "\<And>j sc s. slice_scene cfg ffmpeg v info j sc = Inr (Some s) \<Longrightarrow> k s = g j sc"
  shows "sorted_wrt (<) (map (\<lambda>(j, sc). g j sc) (enumerate i scenes)) \<Longrightarrow>
         \<forall>s \<in> set segs. \<forall>p \<in> set (enumerate i scenes). k s < g (fst p) (snd p) \<Longrightarrow>
         sorted_wrt (<) (map k segs) \<Longrightarrow>
         sorted_wrt (<) (map k (slicing_loop cfg ffmpeg v info i scenes segs))"
proof (induction scenes arbitrary: i segs)
  case Nil
  then show ?case by simp
next
  case (Cons sc scenes)
  let ?segs' = "(case slice_scene cfg ffmpeg v info i sc of
          Inl e \<Rightarrow> segs | Inr None \<Rightarrow> segs | Inr (Some seg) \<Rightarrow> segs @ [seg])"
  have a: "sorted_wrt (<) (map (\<lambda>(j, sc). g j sc) (enumerate (Suc i) scenes))"
    using Cons.prems(1) by simp
  have b: "\<forall>s \<in> set ?segs'. \<forall>p \<in> set (enumerate (Suc i) scenes). k s < g (fst p) (snd p)"
    using Cons.prems(1,2) key [of i sc] by (auto split: sum.splits option.splits)
  have c: "sorted_wrt (<) (map k ?segs')"
    using Cons.prems(2,3) key [of i sc]
    by (auto simp: sorted_wrt_append split: sum.splits option.splits)
  from Cons.IH [OF a b c] show ?case by simp
qed

lemma slicing_loop_scene_position:
  "\<forall>s \<in> set (slicing_loop cfg ffmpeg v info i scenes segs).
     s \<in> set segs \<or>
     (i < index s \<and> index s \<le> i + length scenes \<and>
      scenes ! (index s - 1 - i) = (start_frame s, end_frame s))"
proof (induction scenes arbitrary: i segs)
  case Nil
  then show ?case by simp
next
  case (Cons sc scenes)
  let ?segs' = "(case slice_scene cfg ffmpeg v info i sc of
          Inl e \<Rightarrow> segs | Inr None \<Rightarrow> segs | Inr (Some seg) \<Rightarrow> segs @ [seg])"
  show ?case
  proof
    fix s
    assume "s \<in> set (slicing_loop cfg ffmpeg v info i (sc # scenes) segs)"
    then have "s \<in> set (slicing_loop cfg ffmpeg v info (Suc i) scenes ?segs')" by simp
    with Cons.IH [of "Suc i" ?segs']
    consider (old) "s \<in> set ?segs'"
      | (new) "Suc i < index s" "index s \<le> Suc i + length scenes"
              "scenes ! (index s - 1 - Suc i) = (start_frame s, end_frame s)"
      by blast
    then show "s \<in> set segs \<or>
       (i < index s \<and> index s \<le> i + length (sc # scenes) \<and>
        (sc # scenes) ! (index s - 1 - i) = (start_frame s, end_frame s))"
    proof cases
      case old
      then show ?thesis
        using slice_scene_index [of cfg ffmpeg v info i sc s]
              slice_scene_frames [of cfg ffmpeg v info i sc s]
        by (auto split: sum.splits option.splits)
    next
      case new
      then have "index s - 1 - i = Suc (index s - 1 - Suc i)" by arith
      with new show ?thesis by simp
    qed
  qed
qed


lemma sorted_start_frames:
  assumes "0 < vi_fps info" "sorted_wrt (<) (map fst scenes)"
  shows "sorted_wrt (<) (map (\<lambda>(j, sc). real_of_int (fst sc) / vi_fps info) (enumerate i scenes))"
proof -
  have "map (\<lambda>(j, sc). real_of_int (fst sc) / vi_fps info) (enumerate i scenes)
        = map (\<lambda>sc. real_of_int (fst sc) / vi_fps info) scenes"
    by (induction scenes arbitrary: i) auto
  moreover have "sorted_wrt (\<lambda>x y. real_of_int (fst x) / vi_fps info
                                 < real_of_int (fst y) / vi_fps info) scenes"
    using assms(2) unfolding sorted_wrt_map
    by (rule sorted_wrt_mono_rel [rotated]) (simp add: assms(1) divide_strict_right_mono)
  ultimately show ?thesis
    by (simp add: sorted_wrt_map)
qed


text \<open>
  Claim C4, as stated: the indices of the surviving segments are \<open>1, 2, ..., n\<close>.
  The Segmenter writes \<open>"index": i + 1\<close> with \<open>i\<close> from \<open>enumerate(scenes)\<close>, so a
  discarded candidate leaves a gap: with a first scene of one frame (0.04 s at 25 fps,
  below the minimum of 0.1 s) the only surviving segment carries index 2.
\<close>

theorem C4_counterexample:
  "map index (segments (perform_slicing cfg0 ffmpeg_ok v0 [(0, 1), (1, 100)] info0)) = [2] \<and>
   map index (segments (perform_slicing cfg0 ffmpeg_ok v0 [(0, 1), (1, 100)] info0))
     \<noteq> [1 ..< Suc (length (segments (perform_slicing cfg0 ffmpeg_ok v0 [(0, 1), (1, 100)] info0)))]"
  by (simp add: perform_slicing_def slice_scene_def slice_scene_traced_def example_defs get_min_duration_def Let_def)


text \<open>
  Claim C4, amended.  The index of a surviving segment is the 1-based position of its
  scene in the detector's list: the indices are strictly increasing (with a gap wherever
  a candidate was discarded), each lies in \<open>1..length scenes\<close> and names the scene the
  segment was cut from; and when the detector's scenes come in strictly increasing
  start-frame order (at a positive frame rate) the segments are strictly increasing in
  start time.
\<close>

theorem C4_indices_are_scene_positions:
  "sorted_wrt (<) (map index (segments (perform_slicing cfg ffmpeg v scenes info))) \<and>
   (\<forall>seg \<in> set (segments (perform_slicing cfg ffmpeg v scenes info)).
      1 \<le> index seg \<and> index seg \<le> length scenes \<and>
      scenes ! (index seg - 1) = (start_frame seg, end_frame seg)) \<and>
   (0 < vi_fps info \<and> sorted_wrt (<) (map fst scenes) \<longrightarrow>
      sorted_wrt (<) (map start_time (segments (perform_slicing cfg ffmpeg v scenes info))))"
proof (intro conjI impI)
  have "sorted_wrt (<) (map (\<lambda>(j, sc). j + 1) (enumerate 0 scenes))"
    by (simp add: enumerate_eq_zip sorted_wrt_map case_prod_beta sorted_wrt_iff_nth_less)
  then show "sorted_wrt (<) (map index (segments (perform_slicing cfg ffmpeg v scenes info)))"
    unfolding perform_slicing_def
    using slicing_loop_sorted_key [of cfg ffmpeg v info index "\<lambda>j sc. j + 1" 0 scenes "[]"]
          slice_scene_index [of cfg ffmpeg v info]
    by simp
next
  show "\<forall>seg \<in> set (segments (perform_slicing cfg ffmpeg v scenes info)).
      1 \<le> index seg \<and> index seg \<le> length scenes \<and>
      scenes ! (index seg - 1) = (start_frame seg, end_frame seg)"
    unfolding perform_slicing_def
    using slicing_loop_scene_position [of cfg ffmpeg v info 0 scenes "[]"] by auto
next
  assume "0 < vi_fps info \<and> sorted_wrt (<) (map fst scenes)"
  then have "sorted_wrt (<) (map (\<lambda>(j, sc). real_of_int (fst sc) / vi_fps info) (enumerate 0 scenes))"
    using sorted_start_frames by blast
  then show "sorted_wrt (<) (map start_time (segments (perform_slicing cfg ffmpeg v scenes info)))"
    unfolding perform_slicing_def
    using slicing_loop_sorted_key [of cfg ffmpeg v info start_time
             "\<lambda>j sc. real_of_int (fst sc) / vi_fps info" 0 scenes "[]"]
          slice_scene_start_time [of cfg ffmpeg v info]
    by simp
qed


theorem C4_witness:
  "0 < vi_fps info0 \<and> sorted_wrt (<) (map fst [(0 :: int, 1 :: int), (1, 100), (100, 200)]) \<and>
   map index (segments (perform_slicing cfg0 ffmpeg_ok v0 [(0, 1), (1, 100), (100, 200)] info0)) = [2, 3] \<and>
   sorted_wrt (<) (map start_time
      (segments (perform_slicing cfg0 ffmpeg_ok v0 [(0, 1), (1, 100), (100, 200)] info0)))"
  using C4_indices_are_scene_positions [of cfg0 ffmpeg_ok v0 "[(0, 1), (1, 100), (100, 200)]" info0]
  by (simp add: perform_slicing_def slice_scene_def slice_scene_traced_def example_defs get_min_duration_def Let_def)


subsection \<open>Minimum duration\<close>

lemma slice_scene_traced_run_duration:
  "\<forall>run \<in> set (snd (slice_scene_traced cfg ffmpeg v info i sc)).
     get_min_duration cfg \<le> call_duration run"
  by (auto simp: slice_scene_traced_def Let_def split: if_splits option.splits)

lemma ffmpeg_runs_duration:
  "\<forall>run \<in> set (ffmpeg_runs cfg ffmpeg v info i scenes). get_min_duration cfg \<le> call_duration run"
proof (induction scenes arbitrary: i)
  case Nil
  then show ?case by simp
next
  case (Cons sc scenes)
  show ?case
    using slice_scene_traced_run_duration [of cfg ffmpeg v info i sc] Cons.IH [of "Suc i"]
    by auto
qed

lemma slice_scene_short:
  assumes "vi_fps info \<noteq> 0"
      and "real_of_int (snd sc) / vi_fps info - real_of_int (fst sc) / vi_fps info
             < get_min_duration cfg"
  shows "slice_scene_traced cfg ffmpeg v info i sc = (Inr None, [])"
  using assms by (simp add: slice_scene_traced_def Let_def)

lemma slice_scene_duration_frames:
  "slice_scene cfg ffmpeg v info i sc = Inr (Some seg) \<Longrightarrow>
     duration seg = real_of_int (end_frame seg) / vi_fps info
                      - real_of_int (start_frame seg) / vi_fps info"
  by (auto simp: slice_scene_def slice_scene_traced_def Let_def split: if_splits option.splits)

lemma slicing_loop_all:
  assumes step: "\<And>j sc s. slice_scene cfg ffmpeg v info j sc = Inr (Some s) \<Longrightarrow> P s"
  shows "\<forall>s \<in> set segs. P s \<Longrightarrow> \<forall>s \<in> set (slicing_loop cfg ffmpeg v info i scenes segs). P s"
proof (induction scenes arbitrary: i segs)
  case Nil
  then show ?case by simp
next
  case (Cons sc scenes)
  let ?segs' = "(case slice_scene cfg ffmpeg v info i sc of
          Inl e \<Rightarrow> segs | Inr None \<Rightarrow> segs | Inr (Some seg) \<Rightarrow> segs @ [seg])"
  have "\<forall>s \<in> set ?segs'. P s"
    using Cons.prems step [of i sc] by (auto split: sum.splits option.splits)
  from Cons.IH [OF this] show ?case by simp
qed


text \<open>
  Claim C9.  For every segmentation run with configured minimum duration \<open>D\<close>
  (\<open>get_min_duration cfg\<close>): every segment in the returned segment list has a duration
  of at least \<open>D\<close>; every clip \<open>ffmpeg\<close> is asked to write has a duration of at least
  \<open>D\<close>; and a candidate scene whose duration is below \<open>D\<close> is discarded before
  \<open>ffmpeg\<close> is invoked, whatever \<open>ffmpeg\<close> would do: it produces no clip and no
  returned segment carries its position.
\<close>

theorem C9_returned_segments_min_duration:
  "(\<forall>seg \<in> set (segments (perform_slicing cfg ffmpeg v scenes info)).
      get_min_duration cfg \<le> duration seg) \<and>
   (\<forall>run \<in> set (ffmpeg_runs cfg ffmpeg v info 0 scenes).
      get_min_duration cfg \<le> call_duration run) \<and>
   (\<forall>i < length scenes.
      vi_fps info \<noteq> 0 \<and>
      real_of_int (snd (scenes ! i)) / vi_fps info - real_of_int (fst (scenes ! i)) / vi_fps info
        < get_min_duration cfg \<longrightarrow>
      slice_scene_traced cfg ffmpeg v info i (scenes ! i) = (Inr None, []) \<and>
      (\<forall>seg \<in> set (segments (perform_slicing cfg ffmpeg v scenes info)). index seg \<noteq> i + 1))"
proof (intro conjI allI impI)
  show "\<forall>seg \<in> set (segments (perform_slicing cfg ffmpeg v scenes info)).
      get_min_duration cfg \<le> duration seg"
    unfolding perform_slicing_def
    using slicing_loop_duration [of "[]" cfg ffmpeg v info 0 scenes] by simp
next
  show "\<forall>run \<in> set (ffmpeg_runs cfg ffmpeg v info 0 scenes).
      get_min_duration cfg \<le> call_duration run"
    by (rule ffmpeg_runs_duration)
next
  fix i
  assume i: "i < length scenes"
    and short: "vi_fps info \<noteq> 0 \<and>
      real_of_int (snd (scenes ! i)) / vi_fps info - real_of_int (fst (scenes ! i)) / vi_fps info
        < get_min_duration cfg"
  then show "slice_scene_traced cfg ffmpeg v info i (scenes ! i) = (Inr None, [])"
    by (simp add: slice_scene_short)
  show "\<forall>seg \<in> set (segments (perform_slicing cfg ffmpeg v scenes info)). index seg \<noteq> i + 1"
  proof
    fix seg
    assume seg: "seg \<in> set (segments (perform_slicing cfg ffmpeg v scenes info))"
    then have mem: "seg \<in> set (slicing_loop cfg ffmpeg v info 0 scenes [])"
      by (simp add: perform_slicing_def)
    have long: "get_min_duration cfg \<le> duration seg"
      using slicing_loop_duration [of "[]" cfg ffmpeg v info 0 scenes] mem by simp
    have dur: "duration seg = real_of_int (end_frame seg) / vi_fps info
                      - real_of_int (start_frame seg) / vi_fps info"
      using slicing_loop_all [of cfg ffmpeg v info
              "\<lambda>s. duration s = real_of_int (end_frame s) / vi_fps info
                      - real_of_int (start_frame s) / vi_fps info" "[]" 0 scenes]
            slice_scene_duration_frames [of cfg ffmpeg v info] mem
      by simp
    have pos: "scenes ! (index seg - 1) = (start_frame seg, end_frame seg)"
      using slicing_loop_scene_position [of cfg ffmpeg v info 0 scenes "[]"] mem by auto
    show "index seg \<noteq> i + 1"
    proof
      assume "index seg = i + 1"
      with pos have "scenes ! i = (start_frame seg, end_frame seg)" by simp
      with short dur have "duration seg < get_min_duration cfg" by simp
      with long show False by simp
    qed
  qed
qed


theorem C9_witness:
  "map duration (segments (perform_slicing cfg0 ffmpeg_ok v0 [(0, 1), (1, 100)] info0)) = [99 / 25] \<and>
   map call_duration (ffmpeg_runs cfg0 ffmpeg_ok v0 info0 0 [(0, 1), (1, 100)]) = [99 / 25] \<and>
   slice_scene_traced cfg0 ffmpeg_ok v0 info0 0 (0, 1) = (Inr None, []) \<and>
   map index (segments (perform_slicing cfg0 ffmpeg_ok v0 [(0, 1), (1, 100)] info0)) = [2] \<and>
   get_min_duration cfg0 = 1 / 10 \<and> (1 :: real) / 10 \<le> 99 / 25"
  using C9_returned_segments_min_duration [of cfg0 ffmpeg_ok v0 "[(0, 1), (1, 100)]" info0]
  by (simp add: perform_slicing_def slice_scene_def slice_scene_traced_def example_defs
        get_min_duration_def Let_def)


section \<open>Frame Sampler: properties\<close>

lemma upt2: "[0..<2] = [0, Suc 0]"
  by (simp add: upt_rec)

lemma extract_loop_all_written:
  "\<forall>q. imwr q = None \<Longrightarrow>
   extract_loop cap imwr d idx idxs frs =
     Inr (frs @ map (\<lambda>(j, f). frame_file d j) (filter (\<lambda>(j, f). readable cap f) (enumerate idx idxs)))"
  by (induction idxs arbitrary: idx frs) auto

lemma length_filter_enumerate:
  "length (filter (\<lambda>(j, f). P f) (enumerate i xs)) = length (filter P xs)"
  by (induction xs arbitrary: i) auto


text \<open>
  Claim C7, as stated: the Frame Sampler reports an error when the clip cannot be opened
  or yields fewer readable frames than requested.  \<open>_extract_frames\<close> never checks the
  capture or the number of frames it collected; a failed read is skipped by \<open>if ret\<close>.
  On a clip that cannot be opened, with two frames requested, it returns the empty list.
\<close>

theorem C7_counterexample: "extract_frames sampler_unopened ''clip.mp4'' 2 = Inr []"
  by (simp add: extract_frames_def sampler_unopened_def unopened_capture_def ideal_linspace_def Let_def upt2)


text \<open>
  Claim C7, amended.  For every clip path and requested frame count \<open>K\<close>, the Frame
  Sampler writes and returns one frame file for each of the \<open>K\<close> sampled indices whose
  read succeeds and silently skips the others: when the index computation, the creation
  of the scratch directory and the image writes do not raise, it returns without error,
  with at most \<open>K\<close> files, and with fewer than \<open>K\<close> (none for a clip that cannot be
  opened) exactly when some read failed.
\<close>

theorem C7_reads_decide_the_frames:
  assumes "linspace env (frame_count (VideoCapture env p) - 1) K = Inr idxs"
      and "length idxs = nat K"
      and "mkdtemp env = Inr d"
      and "\<forall>q. imwrite env q = None"
  shows "\<exists>frs. extract_frames env p K = Inr frs \<and>
           frs = map (\<lambda>(j, f). frame_file d j)
                   (filter (\<lambda>(j, f). readable (VideoCapture env p) f) (enumerate 0 idxs)) \<and>
           length frs \<le> nat K \<and>
           (length frs < nat K \<longleftrightarrow> (\<exists>f \<in> set idxs. \<not> readable (VideoCapture env p) f))"
proof -
  let ?cap = "VideoCapture env p"
  let ?frs = "map (\<lambda>(j, f). frame_file d j)
                   (filter (\<lambda>(j, f). readable ?cap f) (enumerate 0 idxs))"
  have res: "extract_frames env p K = Inr ?frs"
    using assms(1,3) extract_loop_all_written [OF assms(4), of ?cap d 0 idxs "[]"]
    by (simp add: extract_frames_def Let_def)
  have len: "length ?frs = length (filter (readable ?cap) idxs)"
    by (simp add: length_filter_enumerate)
  have "length (filter (readable ?cap) idxs) \<le> length idxs" by simp
  moreover have "length (filter (readable ?cap) idxs) < length idxs
       \<longleftrightarrow> (\<exists>f \<in> set idxs. \<not> readable ?cap f)"
    by (metis filter_id_conv less_irrefl_nat length_filter_less)
  ultimately show ?thesis using res len assms(2) by simp
qed


theorem C7_witness:
  "linspace sampler_unopened (frame_count (VideoCapture sampler_unopened ''clip.mp4'') - 1) 2 = Inr [0, -1] \<and>
   extract_frames sampler_unopened ''clip.mp4'' 2 = Inr []"
proof -
  have h1: "linspace sampler_unopened
              (frame_count (VideoCapture sampler_unopened ''clip.mp4'') - 1) 2 = Inr [0, -1]"
    by (simp add: sampler_unopened_def unopened_capture_def ideal_linspace_def upt2)
  have h2: "length [0, -1 :: int] = nat 2" by simp
  have h3: "mkdtemp sampler_unopened = Inr ''tmp''" by (simp add: sampler_unopened_def)
  have h4: "\<forall>q. imwrite sampler_unopened q = None" by (simp add: sampler_unopened_def)
  from C7_reads_decide_the_frames [OF h1 h2 h3 h4] h1 show ?thesis
    by (simp add: sampler_unopened_def unopened_capture_def)
qed


section \<open>Segment Analyzer: properties\<close>

lemma str_nat_digit: "n < 10 \<Longrightarrow> str_nat n = [digit_char n]"
  by (simp add: str_nat.simps)

lemma retry_loop_exhausted: "retry_loop cr req 3 le tr = (Inl le, tr)"
  by (subst retry_loop.simps) (simp add: max_retries_def)

lemma retry_loop_failed_attempt:
  "n < 3 \<Longrightarrow> request_once cr req n = Inl e \<Longrightarrow>
   retry_loop cr req n le tr =
     retry_loop cr req (n + 1) (Some e)
       (tr @ [Request n] @ (if n + 1 < 3 then [Sleep (2 ^ (n + 1))] else []))"
  by (subst retry_loop.simps) (simp add: max_retries_def)

lemma retry_loop_all_fail:
  assumes "\<forall>n<3. request_once cr req n = Inl (err n)"
  shows "retry_loop cr req 0 None [] =
           (Inl (Some (err 2)), [Request 0, Sleep 2, Request 1, Sleep 4, Request 2])"
proof -
  have f0: "request_once cr req 0 = Inl (err 0)"
   and f1: "request_once cr req 1 = Inl (err 1)"
   and f2: "request_once cr req 2 = Inl (err 2)"
    using assms by simp_all
  have "retry_loop cr req 0 None [] = retry_loop cr req 1 (Some (err 0)) [Request 0, Sleep 2]"
    using retry_loop_failed_attempt [of 0 cr req "err 0" None "[]"] f0 by simp
  also have "\<dots> = retry_loop cr req 2 (Some (err 1)) [Request 0, Sleep 2, Request 1, Sleep 4]"
    using retry_loop_failed_attempt [of 1 cr req "err 1" "Some (err 0)" "[Request 0, Sleep 2]"] f1
    by (simp add: numeral_2_eq_2 [symmetric])
  also have "\<dots> = retry_loop cr req 3 (Some (err 2))
                      [Request 0, Sleep 2, Request 1, Sleep 4, Request 2]"
    using retry_loop_failed_attempt [of 2 cr req "err 2" "Some (err 1)"
            "[Request 0, Sleep 2, Request 1, Sleep 4]"] f2
    by simp
  finally show ?thesis
    by (simp only: retry_loop_exhausted)
qed


text \<open>
  Claim C3, as stated: when every attempt fails the analyzer waits 2, 4 and 8 seconds.
  The wait is guarded by \<open>if retry_count < max_retries\<close>: after the third failure the
  loop ends without sleeping, so the waits are 2 and 4 seconds only.
\<close>

theorem C3_counterexample:
  "sleeps (snd (analyze_video_slice analyzer_failing ''clip.mp4'' ''title'' '''' None)) = [2, 4] \<and>
   sleeps (snd (analyze_video_slice analyzer_failing ''clip.mp4'' ''title'' '''' None)) \<noteq> [2, 4, 8]"
proof -
  have "\<forall>n<3. request_once (create analyzer_failing) req n = Inl (Exception ''timeout'')" for req
    by (simp add: request_once_def analyzer_failing_def)
  from retry_loop_all_fail [OF this] show ?thesis
    by (simp add: analyze_video_slice_def analyzer_failing_def sampler_ok_def extract_frames_def
          get_frames_per_slice_def ideal_linspace_def upt2 Let_def)
qed


text \<open>
  Claim C3, amended.  For every invocation of the Segment Analyzer whose frames were
  sampled and encoded and in which the description request fails on every attempt, the
  analyzer makes exactly 3 attempts, waits \<open>2^k\<close> seconds after the \<open>k\<close>-th failure for
  \<open>k = 1, 2\<close> (2 and 4 seconds; no wait follows the third failure), and then returns an
  \<open>AnalysisResult\<close> with \<open>success = False\<close> whose message carries the last error; it
  returns this result rather than raising.
\<close>

theorem C3_three_attempts_two_waits:
  assumes "extract_frames (sampler env) p (get_frames_per_slice env) = Inr frs"
      and "encode_frames (read_image env) frs = Inr urls"
      and "\<forall>n<3. request_once (create env)
                     \<lparr> prompt = build_prompt title prev dims, image_urls = urls \<rparr> n = Inl (err n)"
  shows "analyze_video_slice env p title prev dims =
           (\<lparr> success = False, analysis_info = None,
              message = Some (''no valid analysis result. [reason: '' @ str_exn (err 2) @ '']''),
              frames = Some frs, audio_path = Some [], token_usage = 0 \<rparr>,
            [Request 0, Sleep 2, Request 1, Sleep 4, Request 2])"
  using assms(1,2) retry_loop_all_fail [OF assms(3)]
  by (simp add: analyze_video_slice_def Let_def str_last_error_def)


theorem C3_witness:
  "extract_frames (sampler analyzer_failing) ''clip.mp4'' (get_frames_per_slice analyzer_failing)
     = Inr [frame_file ''tmp'' 0, frame_file ''tmp'' 1] \<and>
   requests (snd (analyze_video_slice analyzer_failing ''clip.mp4'' ''title'' '''' None)) = [0, 1, 2] \<and>
   \<not> success (fst (analyze_video_slice analyzer_failing ''clip.mp4'' ''title'' '''' None)) \<and>
   message (fst (analyze_video_slice analyzer_failing ''clip.mp4'' ''title'' '''' None))
     = Some ''no valid analysis result. [reason: timeout]''"
proof -
  have h1: "extract_frames (sampler analyzer_failing) ''clip.mp4'' (get_frames_per_slice analyzer_failing)
     = Inr [frame_file ''tmp'' 0, frame_file ''tmp'' 1]"
    by (simp add: analyzer_failing_def sampler_ok_def extract_frames_def
          get_frames_per_slice_def ideal_linspace_def upt2 Let_def)
  have h2: "encode_frames (read_image analyzer_failing) [frame_file ''tmp'' 0, frame_file ''tmp'' 1]
     = Inr [''data:image/jpeg;base64,data'', ''data:image/jpeg;base64,data'']"
    by (simp add: analyzer_failing_def)
  have h3: "\<forall>n<3. request_once (create analyzer_failing)
               \<lparr> prompt = build_prompt ''title'' '''' None,
                 image_urls = [''data:image/jpeg;base64,data'', ''data:image/jpeg;base64,data''] \<rparr> n
               = Inl ((\<lambda>n. Exception ''timeout'') n)"
    by (simp add: request_once_def analyzer_failing_def)
  from C3_three_attempts_two_waits [OF h1 h2 h3] h1 show ?thesis by simp
qed


section \<open>Resource Lock and queue-driven pipeline: properties\<close>

lemma events_emit [simp]: "events (emit ev st) = events st @ [ev]"
  by (simp add: emit_def)

lemma slicer_info_emit [simp]: "slicer_info (emit ev st) = slicer_info st"
  by (simp add: emit_def)

lemma locks_emit [simp]: "locks (emit ev st) = locks st"
  by (simp add: emit_def)

lemma acquire_contended:
  assumes "open_file lenv (path_join LOCK_DIR (name @ ''.lock'')) = None"
      and "flock_fault lenv (path_join LOCK_DIR (name @ ''.lock'')) = None"
      and "tbl (path_join LOCK_DIR (name @ ''.lock'')) = Some h"
  shows "acquire_file_lock lenv me tbl name = ((False, None), tbl)"
  using assms
  by (simp add: acquire_file_lock_def flock_nb_def lock_failure_def Let_def)


text \<open>
  Claim C8, amended.  When the lock file of a video can be opened and \<open>flock\<close> fails
  for no other reason than contention, and the lock key is already held by another
  holder, the non-blocking acquisition fails at once with \<open>(False, None)\<close>, and the task
  returns a result with status \<open>skipped\<close> without doing anything to the video: the run
  state (trace, slicer, lock table) is as before.
\<close>

theorem C8_held_lock_gives_skipped:
  assumes "open_file (lck tenv) (task_lock_path tenv inp) = None"
      and "flock_fault (lck tenv) (task_lock_path tenv inp) = None"
      and "locks st (task_lock_path tenv inp) = Some h"
      and "h \<noteq> holder_id tenv"
  shows "acquire_file_lock (lck tenv) (holder_id tenv) (locks st)
             (lock_name_of (task_video_name tenv inp)) = ((False, None), locks st) \<and>
         result_status (fst (process_video_task tenv inp st)) = ''skipped'' \<and>
         snd (process_video_task tenv inp st) = st"
proof -
  have acq: "acquire_file_lock (lck tenv) (holder_id tenv) (locks st)
               (lock_name_of (task_video_name tenv inp)) = ((False, None), locks st)"
    using assms(1-3) unfolding task_lock_path_def by (rule acquire_contended)
  then show ?thesis
    by (simp add: process_video_task_def Let_def task_video_name_def [symmetric])
qed


theorem C8_witness:
  "locks (task_state0 held_by_other)
     (task_lock_path (tenv_ok [(0, 100)]) task_input0) = Some 2 \<and>
   2 \<noteq> holder_id (tenv_ok [(0, 100)]) \<and>
   fst (process_video_task (tenv_ok [(0, 100)]) task_input0
     (task_state0 held_by_other))
     = Skipped ''the video is being processed by another task'' ''v.mp4'' ''job1'' \<and>
   events (snd (process_video_task (tenv_ok [(0, 100)]) task_input0
     (task_state0 held_by_other))) = []"
proof -
  have p: "task_lock_path (tenv_ok [(0, 100)]) task_input0 = ''/tmp/propainter_locks/video_process_v_mp4.lock''"
    by (simp add: task_lock_path_def task_video_name_def tenv_ok_def task_input0_def py_or_def
          lock_name_of_def LOCK_DIR_def path_join_def)
  have h1: "open_file (lck (tenv_ok [(0, 100)])) (task_lock_path (tenv_ok [(0, 100)]) task_input0) = None"
    by (simp add: tenv_ok_def lenv_ok_def)
  have h2: "flock_fault (lck (tenv_ok [(0, 100)])) (task_lock_path (tenv_ok [(0, 100)]) task_input0) = None"
    by (simp add: tenv_ok_def lenv_ok_def)
  have h3: "locks (task_state0 held_by_other) (task_lock_path (tenv_ok [(0, 100)]) task_input0) = Some 2"
    by (simp add: p task_state0_def held_by_other_def)
  have h4: "2 \<noteq> holder_id (tenv_ok [(0, 100)])"
    by (simp add: tenv_ok_def)
  from C8_held_lock_gives_skipped [OF h1 h2 h3 h4] h3 h4 show ?thesis
    by (simp add: process_video_task_def Let_def task_video_name_def [symmetric])
       (simp add: task_video_name_def tenv_ok_def task_input0_def py_or_def task_state0_def)
qed

lemma extends_quietly_refl: "extends_quietly st st"
  by (simp add: extends_quietly_def)

lemma extends_quietly_trans:
  "extends_quietly a b \<Longrightarrow> extends_quietly b c \<Longrightarrow> extends_quietly a c"
  by (auto simp: extends_quietly_def)

lemma extends_quietly_emit:
  "\<not> is_release ev \<Longrightarrow> extends_quietly st st' \<Longrightarrow> extends_quietly st (emit ev st')"
  by (auto simp: extends_quietly_def)


lemma task_loop_quiet:
  "extends_quietly st0 st \<Longrightarrow>
   extends_quietly st0 (snd (task_loop penv vn pu dims ds tot idx paths prev st))"
proof (induction paths arbitrary: idx prev st)
  case Nil
  then show ?case by simp
next
  case (Cons slice_path rest)
  show ?case
    using Cons.prems
    by (auto simp: Let_def split: prod.splits sum.splits option.splits
          intro!: Cons.IH extends_quietly_emit)
qed




lemma lock_failure_other:
  "io_errno e \<noteq> Some (Some EACCES) \<Longrightarrow> io_errno e \<noteq> Some (Some EAGAIN) \<Longrightarrow>
   lock_failure e = (True, None)"
  by (auto simp: lock_failure_def split: option.splits)

lemma acquire_unexpected_error:
  assumes "open_file lenv (path_join LOCK_DIR (name @ ''.lock'')) = Some e \<or>
           (open_file lenv (path_join LOCK_DIR (name @ ''.lock'')) = None \<and>
            flock_fault lenv (path_join LOCK_DIR (name @ ''.lock'')) = Some e)"
      and "io_errno e \<noteq> Some (Some EACCES)" and "io_errno e \<noteq> Some (Some EAGAIN)"
  shows "acquire_file_lock lenv me tbl name = ((True, None), tbl)"
  using assms(1) lock_failure_other [OF assms(2,3)]
  by (auto simp: acquire_file_lock_def flock_nb_def Let_def)




lemma task_run_no_scenes:
  "task_body tenv_io_error task_input0 ''v.mp4'' ''job1'' (task_state0 held_by_other) =
     (Success ''v.mp4'' ''job1'' ''dataset1'' 0,
      \<lparr> events = [UpdateState 1 100 None, Copied ''upload/v.mp4'' ''temp/job1.mp4'',
                   UpdateState 10 100 None, CreateDataset ''job1'', UpdateState 20 100 None,
                   SliceVideo ''temp/job1.mp4'', UpdateState 30 100 None, UpdateState 95 100 None,
                   Removed ''temp/job1.mp4''],
         slicer_info = Some \<lparr> original_video = ''temp/job1.mp4'', total_duration = 8,
                                total_frames = 200, fps = 25, segments = [] \<rparr>,
         locks = held_by_other \<rparr>)"
  by (simp add: task_body_def task_segments_def slice_video_def perform_slicing_def
        get_slice_paths_def tenv_io_error_def tenv_ok_def penv_ok_def task_input0_def
        task_state0_def info0_def emit_def path_join_def Let_def)



text \<open>
  Claim C8, as stated: whenever the lock key is held by another holder the task is
  skipped.  When opening the lock file fails with an error other than \<open>EACCES\<close> or
  \<open>EAGAIN\<close> (here \<open>EMFILE\<close>), the handler of \<open>acquire_file_lock\<close> returns
  \<open>(True, None)\<close> by design: the key is held by holder 2, and the task of holder 1
  processes the video and returns status \<open>success\<close>.
\<close>

theorem C8_counterexample:
  "held_by_other (task_lock_path tenv_io_error task_input0) = Some 2 \<and>
   holder_id tenv_io_error = 1 \<and>
   acquire_file_lock (lck tenv_io_error) (holder_id tenv_io_error) held_by_other
       (lock_name_of (task_video_name tenv_io_error task_input0)) = ((True, None), held_by_other) \<and>
   result_status (fst (process_video_task tenv_io_error task_input0 (task_state0 held_by_other)))
     = ''success''"
proof -
  have p: "task_lock_path tenv_io_error task_input0 = ''/tmp/propainter_locks/video_process_v_mp4.lock''"
    by (simp add: task_lock_path_def task_video_name_def tenv_io_error_def tenv_ok_def
          task_input0_def py_or_def lock_name_of_def LOCK_DIR_def path_join_def)
  have n: "task_video_name tenv_io_error task_input0 = ''v.mp4''"
    by (simp add: task_video_name_def task_input0_def py_or_def)
  have u: "py_or (processing_uuid task_input0) (uuid4 tenv_io_error) = ''job1''"
    by (simp add: task_input0_def py_or_def)
  have acq: "acquire_file_lock (lck tenv_io_error) (holder_id tenv_io_error) held_by_other
       (lock_name_of ''v.mp4'') = ((True, None), held_by_other)"
    by (rule acquire_unexpected_error [where e = "IOError (Some 24) ''Too many open files''"])
       (simp_all add: tenv_io_error_def lenv_io_error_def EACCES_def EAGAIN_def)
  have run: "process_video_task tenv_io_error task_input0 (task_state0 held_by_other) =
          task_body tenv_io_error task_input0 ''v.mp4'' ''job1'' (task_state0 held_by_other)"
    using acq
    by (simp add: process_video_task_def Let_def task_video_name_def [symmetric] n u
          task_state0_def split: prod.splits)
  have c1: "held_by_other (task_lock_path tenv_io_error task_input0) = Some 2"
    by (simp add: p held_by_other_def)
  have c2: "holder_id tenv_io_error = 1"
    by (simp add: tenv_io_error_def tenv_ok_def)
  have c3: "acquire_file_lock (lck tenv_io_error) (holder_id tenv_io_error) held_by_other
       (lock_name_of (task_video_name tenv_io_error task_input0)) = ((True, None), held_by_other)"
    using acq by (simp only: n)
  have c4: "result_status (fst (process_video_task tenv_io_error task_input0
                (task_state0 held_by_other))) = ''success''"
    by (simp add: run task_run_no_scenes)
  show ?thesis
    by (intro conjI c1 c2 c3 c4)
qed


section \<open>Video Pipeline: properties\<close>

lemma digit_chars:
  "str_nat 0 = ''0''" "str_nat (Suc 0) = ''1''" "str_nat (Suc (Suc 0)) = ''2''"
  "str_nat (Suc (Suc (Suc 0))) = ''3''" "str_nat (Suc (Suc (Suc (Suc 0)))) = ''4''"
  "str_nat (Suc (Suc (Suc (Suc (Suc 0))))) = ''5''"
  "str_nat (Suc (Suc (Suc (Suc (Suc (Suc 0)))))) = ''6''"
  by (simp_all add: str_nat.simps digit_char_def)

lemma retry_loop_first_answer:
  "request_once cr req 0 = Inr r \<Longrightarrow> retry_loop cr req 0 None [] = (Inr r, [Request 0])"
  by (subst retry_loop.simps) (simp add: max_retries_def)

lemma analyzer_answering_result:
  "fst (analyze_video_slice analyzer_answering p t prev dims) =
     \<lparr> success = True,
       analysis_info = Some \<lparr> info_video_path = p, analysis_result = ''a car drives'',
                              info_token_usage = 7 \<rparr>,
       message = Some ''analysis finished'',
       frames = Some [frame_file ''tmp'' 0, frame_file ''tmp'' 1],
       audio_path = Some [], token_usage = 0 \<rparr>"
proof -
  have "request_once (create analyzer_answering) req 0 = Inr (''a car drives'', 7)" for req
    by (simp add: request_once_def analyzer_answering_def)
  from retry_loop_first_answer [OF this] show ?thesis
    by (simp add: analyze_video_slice_def analyzer_answering_def sampler_ok_def extract_frames_def
          get_frames_per_slice_def ideal_linspace_def upt2 Let_def)
qed

lemma penv_ok_fields:
  "slice_conf (penv_ok s) = cfg0"
  "detect_scenes (penv_ok s) p = Inr (info0, s)"
  "run_ffmpeg (penv_ok s) = ffmpeg_ok"
  "create_dataset (penv_ok s) n = Inr ''dataset1''"
  "upload_video_and_get_url (penv_ok s) p ob = (True, StoreUrl (''http://store/'' @ ob @ ''?sig=1'') ob)"
  "analyze (penv_ok s) p t prev dims =
     \<lparr> success = True,
       analysis_info = Some \<lparr> info_video_path = p, analysis_result = ''a car drives'',
                              info_token_usage = 7 \<rparr>,
       message = Some ''analysis finished'',
       frames = Some [frame_file ''tmp'' 0, frame_file ''tmp'' 1],
       audio_path = Some [], token_usage = 0 \<rparr>"
  "create_data (penv_ok s) c q a = None"
  "abspath (penv_ok s) p = ''/work/'' @ p"
  by (simp_all add: penv_ok_def analyzer_answering_result)

lemma slice_video_penv_ok:
  "slice_video (penv_ok s) st v =
     (\<lparr> slice_success = True,
        result_slice_info = Some (perform_slicing cfg0 ffmpeg_ok v s info0),
        slice_message = None, result_frames_count = 200, result_duration = 8 \<rparr>,
      Some (perform_slicing cfg0 ffmpeg_ok v s info0))"
  by (simp add: slice_video_def penv_ok_fields Let_def info0_def)

lemma two_scenes_sliced:
  "perform_slicing cfg0 ffmpeg_ok \<lparr> file_path = fp, parent_name = pn, stem = sn \<rparr>
       [(0, 100), (100, 200)] info0 =
     \<lparr> original_video = fp, total_duration = 8, total_frames = 200, fps = 25,
       segments =
         [\<lparr> index = 1, start_time = 0, end_time = 4, duration = 4, start_frame = 0, end_frame = 100,
            output_path = ''out/'' @ pn @ ''/'' @ sn @ ''_segment_1.mp4'' \<rparr>,
          \<lparr> index = 2, start_time = 4, end_time = 8, duration = 4, start_frame = 100, end_frame = 200,
            output_path = ''out/'' @ pn @ ''/'' @ sn @ ''_segment_2.mp4'' \<rparr>] \<rparr>"
  by (simp add: perform_slicing_def slice_scene_def slice_scene_traced_def segment_output_path_def example_defs
        get_min_duration_def path_join_def digit_chars Let_def)


subsection \<open>The previous-analysis text in the two segment loops\<close>

text \<open>
  In \<open>process_single_video\<close> every analysis call of a run receives the empty string as
  previous-analysis text.
\<close>

lemma analysis_calls_append:
  "analysis_calls (xs @ ys) = analysis_calls xs @ analysis_calls ys"
  by (induction xs rule: analysis_calls.induct) simp_all

lemma main_loop_calls_empty_prev:
  "\<forall>c \<in> set (analysis_calls (events st)). snd c = [] \<Longrightarrow>
   \<forall>c \<in> set (analysis_calls (events (snd (main_loop penv vn vu ds T idx paths pre st)))). snd c = []"
proof (induction paths arbitrary: idx pre st)
  case Nil
  then show ?case by simp
next
  case (Cons slice_path rest)
  have keep: "\<forall>c \<in> set (analysis_calls (events (set_progress x
                 (emit (CreateData a b d) (emit (Analyze slice_path vn [] None) (emit (Upload p q) st)))))).
               snd c = []" for x a b d p q
    using Cons.prems
    by (simp add: set_progress_def set_status_def analysis_calls_append)
  show ?case
    using Cons.prems Cons.IH [OF keep]
    by (simp add: Let_def analysis_calls_append split: prod.splits sum.splits option.splits)
qed

lemma main_every_analysis_call_gets_empty_prev:
  assumes "analysis_calls (events st0) = []"
  shows "\<forall>c \<in> set (analysis_calls (events (snd (process_single_video menv inp st0)))). snd c = []"
proof -
  have loop: "\<forall>c \<in> set (analysis_calls (events st)). snd c = [] \<Longrightarrow>
      main_loop penv vn vu ds T idx paths pre st = (r, st') \<Longrightarrow>
      \<forall>c \<in> set (analysis_calls (events st')). snd c = []" for st penv vn vu ds T idx paths pre r st'
    using main_loop_calls_empty_prev [of st penv vn vu ds T idx paths pre] by simp
  have ev_sp [simp]: "events (set_progress x st) = events st" for x and st :: main_state
    by (simp add: set_progress_def set_status_def)
  have ev_ss [simp]: "events (set_status s st) = events st" for s and st :: main_state
    by (simp add: set_status_def)
  show ?thesis
    using assms
    by (auto simp: process_single_video_def main_body_def Let_def analysis_calls_append
          split: sum.splits prod.splits option.splits
          dest!: loop [rotated])
qed


text \<open>
  In the loop of \<open>process_video_task\<close>, when a slice is uploaded, analysed successfully
  and ingested, and the next slice is uploaded, the analysis call for the next slice
  receives the analysis text of the former.
\<close>

lemma extends_quietly_events:
  "extends_quietly st st' \<Longrightarrow> ev \<in> set (events st) \<Longrightarrow> ev \<in> set (events st')"
  by (auto simp: extends_quietly_def)

lemma task_loop_keeps_events:
  "ev \<in> set (events st) \<Longrightarrow>
   ev \<in> set (events (snd (task_loop penv vn pu dims ds tot idx paths prev st)))"
  using task_loop_quiet [OF extends_quietly_refl, of st penv vn pu dims ds tot idx paths prev]
  by (rule extends_quietly_events)

lemma task_loop_next_call:
  assumes "upload_video_and_get_url penv q (pu @ ''/slice_'' @ str_nat idx @ ''.mp4'') = (True, StoreUrl url ob)"
  shows "Analyze q vn prev dims
           \<in> set (events (snd (task_loop penv vn pu dims ds tot idx (q # rest) prev st)))"
  using assms
  by (auto simp: Let_def extract_file_path_def split: prod.splits sum.splits option.splits
        intro!: task_loop_keeps_events)

lemma task_loop_threads_previous:
  assumes up1: "upload_video_and_get_url penv p (pu @ ''/slice_'' @ str_nat idx @ ''.mp4'')
                  = (True, StoreUrl url ob)"
      and ok: "success (analyze penv p vn prev dims)"
      and info: "analysis_info (analyze penv p vn prev dims) = Some ai"
      and ingest: "create_data penv ds (ingest_question (analysis_result ai)
                      (takeWhile (\<lambda>c. c \<noteq> CHR ''?'' \<and> c \<noteq> CHR ''#'') url)) (abspath penv p) = None"
      and up2: "upload_video_and_get_url penv q (pu @ ''/slice_'' @ str_nat (Suc idx) @ ''.mp4'')
                  = (True, StoreUrl url2 ob2)"
  shows "Analyze q vn (analysis_result ai) dims
           \<in> set (events (snd (task_loop penv vn pu dims ds tot idx (p # q # rest) prev st)))"
proof -
  let ?st4 = "emit (CreateData ds (ingest_question (analysis_result ai)
                      (takeWhile (\<lambda>c. c \<noteq> CHR ''?'' \<and> c \<noteq> CHR ''#'') url)) (abspath penv p))
               (emit (Analyze p vn prev dims)
                 (emit (Upload p (pu @ ''/slice_'' @ str_nat idx @ ''.mp4''))
                   (emit (UpdateState idx tot (Some (30 + (real idx / real tot * 60)))) st)))"
  have step: "task_loop penv vn pu dims ds tot idx (p # q # rest) prev st
                = task_loop penv vn pu dims ds tot (Suc idx) (q # rest) (analysis_result ai) ?st4"
    using up1 ok info ingest
    by (subst task_loop.simps(2)) (simp add: Let_def extract_file_path_def del: task_loop.simps(2))
  show ?thesis
    unfolding step using up2 by (rule task_loop_next_call)
qed


text \<open>
  Claim C1, evaluated on a video of two segments whose analyses both succeed with the
  text \<open>a car drives\<close>.  In \<open>process_single_video\<close> the assignment \<open>pre_result = ""\<close>
  stands inside the loop, before the analysis call, so the call for the second segment
  receives the empty string although the first analysis succeeded; the assignment of
  the analysis text after the call is never read.  \<open>process_video_task\<close>, on the same
  video, passes the text of the first segment to the call for the second.
\<close>

theorem C1_main_resets_previous_analysis:
  "analysis_calls (events (snd (process_single_video (menv_ok [(0, 100), (100, 200)]) input0 state0)))
     = [(''out/in/u1_segment_1.mp4'', []), (''out/in/u1_segment_2.mp4'', [])] \<and>
   analysis_calls (events (snd (process_video_task (tenv_ok [(0, 100), (100, 200)]) task_input0
        (task_state0 (\<lambda>p. None)))))
     = [(''out/temp/job1_segment_1.mp4'', []), (''out/temp/job1_segment_2.mp4'', ''a car drives'')]"
proof (rule conjI)
  show "analysis_calls (events (snd (process_single_video (menv_ok [(0, 100), (100, 200)]) input0 state0)))
     = [(''out/in/u1_segment_1.mp4'', []), (''out/in/u1_segment_2.mp4'', [])]"
    by (simp add: process_single_video_def main_body_def rename_source_def
          slice_video_penv_ok two_scenes_sliced penv_ok_fields get_slice_paths_def
          len_slice_info_def slice_info_keys_def menv_ok_def input0_def state0_def
          extract_file_path_def ingest_question_def
          set_progress_def set_status_def emit_def path_join_def Let_def)
next
  show "analysis_calls (events (snd (process_video_task (tenv_ok [(0, 100), (100, 200)]) task_input0
        (task_state0 (\<lambda>p. None)))))
     = [(''out/temp/job1_segment_1.mp4'', []), (''out/temp/job1_segment_2.mp4'', ''a car drives'')]"
    by (simp add: process_video_task_def task_body_def task_segments_def
          slice_video_penv_ok two_scenes_sliced penv_ok_fields get_slice_paths_def
          acquire_file_lock_def flock_nb_def release_file_lock_def lenv_ok_def
          tenv_ok_def task_input0_def task_state0_def py_or_def lock_name_of_def
          extract_file_path_def ingest_question_def
          emit_def path_join_def LOCK_DIR_def Let_def)
qed


lemma no_scenes_sliced:
  "perform_slicing cfg ff v [] info0 =
     \<lparr> original_video = file_path v, total_duration = 8, total_frames = 200, fps = 25,
       segments = [] \<rparr>"
  by (simp add: perform_slicing_def info0_def)


text \<open>
  Claim C2, evaluated on a video for which the detector reports no scene, every
  collaborator succeeding.  Neither pipeline promotes the video to a segment: the
  segment loop runs over the empty list of slice paths, nothing is uploaded, analysed or
  ingested, and the job still ends in success.
\<close>

theorem C2_zero_segments_nothing_ingested:
  "fst (process_single_video (menv_ok []) input0 state0)
     = Inr \<lparr> r_status = ''success'', r_video_name = ''v.mp4'', r_dataset_id = ''dataset1'',
             r_total_slices = 5 \<rparr> \<and>
   uploads (events (snd (process_single_video (menv_ok []) input0 state0))) = [] \<and>
   analysis_calls (events (snd (process_single_video (menv_ok []) input0 state0))) = [] \<and>
   ingestions (events (snd (process_single_video (menv_ok []) input0 state0))) = [] \<and>
   fst (process_video_task (tenv_ok []) task_input0 (task_state0 (\<lambda>p. None)))
     = Success ''v.mp4'' ''job1'' ''dataset1'' 0 \<and>
   uploads (events (snd (process_video_task (tenv_ok []) task_input0 (task_state0 (\<lambda>p. None))))) = [] \<and>
   analysis_calls (events (snd (process_video_task (tenv_ok []) task_input0 (task_state0 (\<lambda>p. None))))) = [] \<and>
   ingestions (events (snd (process_video_task (tenv_ok []) task_input0 (task_state0 (\<lambda>p. None))))) = []"
proof -
  have m: "process_single_video (menv_ok []) input0 state0 =
     (Inr \<lparr> r_status = ''success'', r_video_name = ''v.mp4'', r_dataset_id = ''dataset1'',
             r_total_slices = 5 \<rparr>,
      \<lparr> events = [Renamed ''in/v.mp4'' ''in/u1.mp4'', CreateDataset ''u1'', SliceVideo ''in/u1.mp4'',
                   Moved ''in/u1.mp4'' ''done/v.mp4'', CleanupTemp ''u1''],
         slicer_info = Some \<lparr> original_video = ''in/u1.mp4'', total_duration = 8,
                                total_frames = 200, fps = 25, segments = [] \<rparr>,
         current = \<lparr> status = ''completed'', progress = 100, error = None \<rparr>,
         history = [\<lparr> status = ''processing'', progress = 0, error = None \<rparr>,
                    \<lparr> status = ''processing'', progress = 35, error = None \<rparr>,
                    \<lparr> status = ''processing'', progress = 50, error = None \<rparr>,
                    \<lparr> status = ''completed'', progress = 100, error = None \<rparr>] \<rparr>)"
    by (simp add: process_single_video_def main_body_def rename_source_def
          slice_video_penv_ok no_scenes_sliced penv_ok_fields get_slice_paths_def
          len_slice_info_def slice_info_keys_def menv_ok_def input0_def state0_def cfg0_def
          set_progress_def set_status_def emit_def path_join_def Let_def)
  have t: "fst (process_video_task (tenv_ok []) task_input0 (task_state0 (\<lambda>p. None))) =
             Success ''v.mp4'' ''job1'' ''dataset1'' 0"
    and e: "events (snd (process_video_task (tenv_ok []) task_input0 (task_state0 (\<lambda>p. None)))) =
         [UpdateState 1 100 None, Copied ''upload/v.mp4'' ''temp/job1.mp4'',
          UpdateState 10 100 None, CreateDataset ''job1'', UpdateState 20 100 None,
          SliceVideo ''temp/job1.mp4'', UpdateState 30 100 None, UpdateState 95 100 None,
          Removed ''temp/job1.mp4'',
          FlockReleased ''/tmp/propainter_locks/video_process_v_mp4.lock'']"
    by (simp_all add: process_video_task_def task_body_def task_segments_def
          slice_video_penv_ok no_scenes_sliced penv_ok_fields get_slice_paths_def
          acquire_file_lock_def flock_nb_def release_file_lock_def lenv_ok_def
          tenv_ok_def task_input0_def task_state0_def py_or_def lock_name_of_def
          emit_def path_join_def LOCK_DIR_def Let_def)
  show ?thesis by (simp add: m t e)
qed


section \<open>Batch Orchestrator: properties\<close>

lemma upt3: "[0..<3] = [0, Suc 0, Suc (Suc 0)]"
  by (simp add: upt_rec)


text \<open>
  Claim C6, evaluated.  The \<open>break\<close> after \<open>results.append(res)\<close> leaves the loop over
  the videos of the batch, not the loop over the retry rounds, and all rounds always
  run.  First run: a batch of five videos with three rounds, where the third video raises
  in the first two rounds and returns in the third and the other videos return in every
  round; the final list holds the result of the first video three times and no entry
  for any other video.  Second run: two videos that return in the first round and raise
  when run again; the first video is recorded as returned and as failed, the second,
  which had returned, as failed only.
\<close>

theorem C6_break_leaves_the_wrong_loop:
  "process_all_videos_batch run_third_fails_twice
      [''v1.mp4'', ''v2.mp4'', ''v3.mp4'', ''v4.mp4'', ''v5.mp4''] 5 3
     = Inr [Returned (returned_ok ''v1.mp4''), Returned (returned_ok ''v1.mp4''),
            Returned (returned_ok ''v1.mp4'')] \<and>
   process_all_videos_batch run_once_only [''a.mp4'', ''b.mp4''] 10 3
     = Inr [Returned (returned_ok ''a.mp4''), RecordedFailed ''a.mp4'' ''source missing'',
            RecordedFailed ''b.mp4'' ''source missing'']"
  by (simp add: process_all_videos_batch_def batches_def retry_batch_def upt3
        run_third_fails_twice_def run_once_only_def str_os_error_def upt_rec)


section \<open>Progress of the in-process pipeline: properties\<close>

lemma history_emit [simp]: "history (emit ev st) = history st"
  by (simp add: emit_def)

lemma current_emit [simp]: "current (emit ev st) = current st"
  by (simp add: emit_def)

lemma loop_progress_mono: "j \<le> k \<Longrightarrow> loop_progress T j \<le> loop_progress T k"
  by (simp add: loop_progress_def divide_right_mono)

lemma loop_progress_le_100: "k \<le> T \<Longrightarrow> loop_progress T k \<le> 100"
proof (cases "T = 0")
  case True
  then show ?thesis by (simp add: loop_progress_def)
next
  case False
  assume "k \<le> T"
  with False have "real k / real T \<le> 1" by simp
  then have "real k / real T * 50 \<le> 1 * 50" by (rule mult_right_mono) simp
  then show ?thesis by (simp add: loop_progress_def)
qed

lemma loop_progress_ge_50: "50 \<le> loop_progress T k"
  by (simp add: loop_progress_def)

lemma loop_inv_emit [simp]: "loop_inv T k (emit ev st) = loop_inv T k st"
  by (simp add: loop_inv_def)

lemma loop_inv_mono: "j \<le> k \<Longrightarrow> loop_inv T j st \<Longrightarrow> loop_inv T k st"
  unfolding loop_inv_def
  using loop_progress_mono [of j k T] by (auto intro: order_trans)

lemma loop_inv_step:
  assumes "loop_inv T j st"
  shows "loop_inv T (Suc j) (set_progress (loop_progress T (Suc j)) st)"
proof -
  have le: "progress (current st) \<le> loop_progress T (Suc j)"
    using assms loop_progress_mono [of j "Suc j" T] by (simp add: loop_inv_def)
  have mem: "loop_progress T (Suc j) \<in> loop_progress T ` {1..Suc j}" by simp
  have sub: "loop_progress T ` {1..j} \<subseteq> loop_progress T ` {1..Suc j}" by auto
  show ?thesis
    using assms le mem sub loop_progress_ge_50 [of T "Suc j"]
    unfolding loop_inv_def set_progress_def set_status_def
    by (auto simp: sorted_append intro: order_trans)
qed

lemma main_loop_inv:
  "loop_inv T j st \<Longrightarrow>
   loop_inv T (j + length paths) (snd (main_loop penv vn vu ds T (Suc j) paths pre st))"
proof (induction paths arbitrary: j pre st)
  case Nil
  then show ?case by simp
next
  case (Cons slice_path rest)
  have stay: "loop_inv T (j + length (slice_path # rest)) (emit ev st)" for ev
    using Cons.prems loop_inv_mono [of j "j + length (slice_path # rest)" T st] by simp
  have stay2: "loop_inv T (j + length (slice_path # rest)) (emit ev2 (emit ev st))" for ev ev2
    using stay by simp
  have stay3: "loop_inv T (j + length (slice_path # rest)) (emit ev3 (emit ev2 (emit ev st)))"
    for ev ev2 ev3
    using stay by simp
  have go: "loop_inv T (j + length (slice_path # rest))
      (snd (main_loop penv vn vu ds T (Suc (Suc j)) rest pre'
              (set_progress (50 + (real (Suc j) / real T * 50)) (emit ev3 (emit ev2 (emit ev st))))))"
    for ev ev2 ev3 pre'
  proof -
    have "loop_inv T j (emit ev3 (emit ev2 (emit ev st)))" using Cons.prems by simp
    then have "loop_inv T (Suc j)
        (set_progress (loop_progress T (Suc j)) (emit ev3 (emit ev2 (emit ev st))))"
      by (rule loop_inv_step)
    from Cons.IH [OF this] show ?thesis
      by (simp add: loop_progress_def)
  qed
  show ?case
    using stay stay2 stay3 go
    by (simp add: Let_def split: prod.splits sum.splits option.splits)
qed


lemma main_loop_inv_result:
  "main_loop penv vn vu ds T (Suc j) paths pre st = (r, st') \<Longrightarrow> loop_inv T j st \<Longrightarrow>
   loop_inv T (j + length paths) st'"
  using main_loop_inv [of T j st paths penv vn vu ds pre] by simp

lemma loop_inv_job_ok:
  assumes "loop_inv T k st" and "k \<le> T"
  shows "job_ok T st"
proof -
  have top: "progress (current st) \<le> 100"
    using assms loop_progress_le_100 [of k T] by (simp add: loop_inv_def)
  have sub: "loop_progress T ` {1..k} \<subseteq> loop_progress T ` {1..T}"
    using assms(2) by auto
  have pos: "0 \<le> loop_progress T j" for j
    using loop_progress_ge_50 [of T j] by simp
  have low: "0 \<le> x" if "x \<in> {0, 35, 50} \<union> loop_progress T ` {1..k}" for x
    using that pos by auto
  show ?thesis
    unfolding job_ok_def
  proof (intro conjI ballI)
    show "sorted (map progress (history st))" using assms(1) by (simp add: loop_inv_def)
    show "current st \<in> set (history st)" using assms(1) by (simp add: loop_inv_def)
  next
    fix s assume s: "s \<in> set (history st)"
    then have a: "progress s \<le> progress (current st)"
      and b: "progress s \<in> {0, 35, 50} \<union> loop_progress T ` {1..k}"
      using assms(1) by (simp_all add: loop_inv_def)
    show "progress s \<le> progress (current st)" by (rule a)
    show "0 \<le> progress s" using b by (rule low)
    show "progress s \<le> 100" using a top by simp
    show "progress s \<in> {0, 35, 50, 100} \<union> loop_progress T ` {1..T}" using b sub by auto
  qed
qed

lemma job_ok_emit [simp]: "job_ok T (emit ev st) = job_ok T st"
  by (simp add: job_ok_def)

lemma job_ok_completed:
  "job_ok T st \<Longrightarrow> job_ok T (set_status ((current st)\<lparr> status := x, progress := 100 \<rparr>) st)"
  unfolding job_ok_def set_status_def
  by (auto simp: sorted_append)

lemma job_ok_failed:
  "job_ok T st \<Longrightarrow> job_ok T (set_status ((current st)\<lparr> status := x, error := e \<rparr>) st)"
  unfolding job_ok_def set_status_def
  by (auto simp: sorted_append)

lemma slicer_info_set_progress [simp]: "slicer_info (set_progress x st) = slicer_info st"
  by (simp add: set_progress_def set_status_def)

lemma slice_video_result:
  "result_slice_info (fst (slice_video penv s v)) = Some si \<Longrightarrow> snd (slice_video penv s v) = Some si"
  by (auto simp: slice_video_def Let_def split: sum.splits prod.splits)

lemma loop_inv_start:
  assumes "history st = [s0]" and "current st = s0" and "progress s0 = 0"
  shows "loop_inv T 0 st"
    and "loop_inv T 0 (set_progress 35 st)"
    and "loop_inv T 0 (set_progress 50 (emit ev ((set_progress 35 st)\<lparr> slicer_info := x \<rparr>)))"
  using assms
  by (simp_all add: loop_inv_def loop_progress_def set_progress_def set_status_def emit_def)


lemma main_body_progress:
  assumes init: "history st = [s0]" "current st = s0" "progress s0 = 0"
      and bound: "\<forall>v si. result_slice_info (fst (slice_video (mpipe menv) (slicer_info st) v)) = Some si
                    \<longrightarrow> length (segments si) \<le> len_slice_info si"
  shows "job_ok (length slice_info_keys) (snd (main_body menv inp st)) \<and>
         (\<forall>r. fst (main_body menv inp st) = Inr r \<longrightarrow>
              progress (current (snd (main_body menv inp st))) = 100 \<and>
              status (current (snd (main_body menv inp st))) = ''completed'')"
proof -
  let ?T = "length slice_info_keys"
  note start = loop_inv_start [OF init, of ?T]
  have ok0: "job_ok ?T st"
    using start(1) by (rule loop_inv_job_ok) simp
  show ?thesis
  proof (cases "rename_source menv inp")
    case (Inl e)
    then show ?thesis using ok0 by (simp add: main_body_def)
  next
    case (Inr renamed)
    obtain new_video_path new_stem where renamed: "renamed = (new_video_path, new_stem)"
      by (cases renamed)
    let ?st1 = "emit (CreateDataset (uuid4_first menv))
                  (emit (Renamed (path_join (in_dir inp) (in_name inp)) new_video_path) st)"
    show ?thesis
    proof (cases "create_dataset (mpipe menv) (uuid4_first menv)")
      case (Inl e)
      then show ?thesis using ok0 Inr renamed by (simp add: main_body_def Let_def)
    next
      case ds: (Inr dataset_id)
      let ?v = "\<lparr> file_path = new_video_path, parent_name = in_dir_base inp, stem = new_stem \<rparr>"
      let ?sliced = "slice_video (mpipe menv) (slicer_info st) ?v"
      let ?st2 = "set_progress 35 ?st1"
      let ?st3 = "set_progress 50 (emit (SliceVideo new_video_path) (?st2\<lparr> slicer_info := snd ?sliced \<rparr>))"
      have st1: "history ?st1 = [s0]" "current ?st1 = s0" using init by simp_all
      have inv3: "loop_inv ?T 0 ?st3"
        using loop_inv_start(3) [OF st1 init(3)] .
      have ok3: "job_ok ?T ?st3"
        using inv3 by (rule loop_inv_job_ok) simp
      have si3: "slicer_info ?st3 = snd ?sliced" by simp
      show ?thesis
      proof (cases "result_slice_info (fst ?sliced)")
        case None
        then show ?thesis using ok3 Inr renamed ds by (simp add: main_body_def Let_def)
      next
        case (Some si)
        then have sl: "snd ?sliced = Some si" by (rule slice_video_result)
        have len: "length (segments si) \<le> ?T"
          using bound Some by (auto simp: len_slice_info_def)
        let ?paths = "map output_path (segments si)"
        obtain r st4 where loop:
          "main_loop (mpipe menv) (in_name inp) (uuid4_first menv) dataset_id ?T (Suc 0) ?paths [] ?st3
             = (r, st4)"
          by (cases "main_loop (mpipe menv) (in_name inp) (uuid4_first menv) dataset_id ?T (Suc 0)
                       ?paths [] ?st3")
        from main_loop_inv_result [OF loop inv3]
        have "loop_inv ?T (length (segments si)) st4" by simp
        then have ok4: "job_ok ?T st4" using len by (rule loop_inv_job_ok)
        let ?st5 = "set_status ((current st4)\<lparr> status := ''completed'', progress := 100 \<rparr>) st4"
        have ok5: "job_ok ?T ?st5" using ok4 by (rule job_ok_completed)
        have cur5: "progress (current ?st5) = 100" "status (current ?st5) = ''completed''"
          by (simp_all add: set_status_def)
        show ?thesis
          using ok4 ok5 cur5 Inr renamed ds Some sl loop
          by (simp add: main_body_def Let_def get_slice_paths_def len_slice_info_def
                split: option.splits)
      qed
    qed
  qed
qed


lemma slicing_loop_length:
  "length (slicing_loop cfg ff v info i scenes segs) \<le> length segs + length scenes"
proof (induction scenes arbitrary: i segs)
  case Nil
  then show ?case by simp
next
  case (Cons sc scenes)
  let ?segs' = "(case slice_scene cfg ff v info i sc of
          Inl e \<Rightarrow> segs | Inr None \<Rightarrow> segs | Inr (Some seg) \<Rightarrow> segs @ [seg])"
  have "length ?segs' \<le> Suc (length segs)"
    by (simp split: sum.splits option.splits)
  with Cons.IH [of "Suc i" ?segs'] show ?case by simp
qed

lemma perform_slicing_length:
  "length (segments (perform_slicing cfg ff v scenes info)) \<le> length scenes"
  using slicing_loop_length [of cfg ff v info 0 scenes "[]"] by (simp add: perform_slicing_def)


text \<open>
  What can be said for every job: when the number of segments does not exceed the total
  that the segment loop divides by, the reported progress is non-decreasing, stays
  within 0 and 100, takes only checkpoint values and values of the loop formula, and is
  100 with status \<open>completed\<close> on success.
\<close>

lemma progress_in_range_within_total:
  assumes "\<forall>v si. result_slice_info (fst (slice_video (mpipe menv) (slicer_info st0) v)) = Some si
                    \<longrightarrow> length (segments si) \<le> len_slice_info si"
  shows "sorted (map progress (history (snd (process_single_video menv inp st0)))) \<and>
         (\<forall>s \<in> set (history (snd (process_single_video menv inp st0))).
            0 \<le> progress s \<and> progress s \<le> 100 \<and>
            progress s \<in> {0, 35, 50, 100} \<union>
               loop_progress (length slice_info_keys) ` {1..length slice_info_keys}) \<and>
         (\<forall>r. fst (process_single_video menv inp st0) = Inr r \<longrightarrow>
              progress (current (snd (process_single_video menv inp st0))) = 100 \<and>
              status (current (snd (process_single_video menv inp st0))) = ''completed'')"
proof -
  let ?T = "length slice_info_keys"
  let ?initial = "\<lparr> status = ''processing'', progress = 0, error = None \<rparr>"
  let ?st = "\<lparr> events = events st0, slicer_info = slicer_info st0,
               current = ?initial, history = [?initial] \<rparr>"
  have body: "job_ok ?T (snd (main_body menv inp ?st)) \<and>
         (\<forall>r. fst (main_body menv inp ?st) = Inr r \<longrightarrow>
              progress (current (snd (main_body menv inp ?st))) = 100 \<and>
              status (current (snd (main_body menv inp ?st))) = ''completed'')"
  proof (rule main_body_progress [where ?s0.0 = ?initial])
    show "history ?st = [?initial]" by simp
    show "current ?st = ?initial" by simp
    show "progress ?initial = 0" by simp
    show "\<forall>v si. result_slice_info (fst (slice_video (mpipe menv) (slicer_info ?st) v)) = Some si
                    \<longrightarrow> length (segments si) \<le> len_slice_info si"
      using assms by simp
  qed
  obtain res st1 where mb: "main_body menv inp ?st = (res, st1)"
    by (cases "main_body menv inp ?st")
  have ok1: "job_ok ?T st1" using body mb by simp
  have "job_ok ?T (snd (process_single_video menv inp st0)) \<and>
         (\<forall>r. fst (process_single_video menv inp st0) = Inr r \<longrightarrow>
              progress (current (snd (process_single_video menv inp st0))) = 100 \<and>
              status (current (snd (process_single_video menv inp st0))) = ''completed'')"
  proof (cases res)
    case (Inl e)
    then show ?thesis
      using mb job_ok_failed [OF ok1, where x = "''failed''" and e = "Some (str_exn e)"]
      by (simp add: process_single_video_def Let_def)
  next
    case (Inr r)
    then show ?thesis
      using mb ok1 body by (simp add: process_single_video_def Let_def)
  qed
  then show ?thesis
    unfolding job_ok_def by blast
qed


lemma five_paths:
  "map output_path (segments (perform_slicing cfg0 ffmpeg_ok v five_scenes info0))
     = map (segment_output_path cfg0 v) [0, 1, 2, 3, 4]"
  by (simp add: perform_slicing_def slice_scene_def slice_scene_traced_def five_scenes_def example_defs
        get_min_duration_def Let_def eval_nat_numeral)

lemma six_paths:
  "map output_path (segments (perform_slicing cfg0 ffmpeg_ok v six_scenes info0))
     = map (segment_output_path cfg0 v) [0, 1, 2, 3, 4, 5]"
  by (simp add: perform_slicing_def slice_scene_def slice_scene_traced_def six_scenes_def example_defs
        get_min_duration_def Let_def eval_nat_numeral)

lemmas main_run_defs =
  process_single_video_def main_body_def rename_source_def slice_video_penv_ok penv_ok_fields
  get_slice_paths_def len_slice_info_def slice_info_keys_def menv_ok_def input0_def state0_def
  extract_file_path_def ingest_question_def set_progress_def set_status_def emit_def
  path_join_def Let_def


text \<open>
  Claim C5, evaluated on a video of six one-second segments, every collaborator
  succeeding.  \<open>process_single_video\<close> takes \<open>total_slices = len(slices.slice_info)\<close>,
  the number of keys of the slice dictionary (five), not the number of segments, and
  reports \<open>50 + idx/total_slices*50\<close> after each of the six segments: the progress goes
  to 110 after the sixth segment and falls back to 100 when the job, which succeeds, is
  marked completed.  It is neither within 0 and 100 nor non-decreasing, and the job
  reports five slices.
\<close>

theorem C5_progress_exceeds_100_with_six_segments:
  "fst (process_single_video (menv_ok six_scenes) input0 state0)
     = Inr \<lparr> r_status = ''success'', r_video_name = ''v.mp4'', r_dataset_id = ''dataset1'',
             r_total_slices = 5 \<rparr> \<and>
   length (ingestions (events (snd (process_single_video (menv_ok six_scenes) input0 state0)))) = 6 \<and>
   map progress (history (snd (process_single_video (menv_ok six_scenes) input0 state0)))
     = [0, 35, 50, 60, 70, 80, 90, 100, 110, 100]"
  by (simp add: main_run_defs six_paths)

text \<open>
  \<open>process_video_task\<close> divides by \<open>len(slice_paths)\<close>: on the same video its loop reports
  40, 50, 60, 70, 80 and 90.
\<close>

lemma task_progress_with_six_segments:
  "reported_progress (events (snd (process_video_task (tenv_ok six_scenes) task_input0
        (task_state0 (\<lambda>p. None)))))
     = [40, 50, 60, 70, 80, 90]"
  by (simp add: process_video_task_def task_body_def task_segments_def
        slice_video_penv_ok six_paths penv_ok_fields get_slice_paths_def
        acquire_file_lock_def flock_nb_def release_file_lock_def lenv_ok_def
        tenv_ok_def task_input0_def task_state0_def py_or_def lock_name_of_def
        extract_file_path_def ingest_question_def
        emit_def path_join_def LOCK_DIR_def Let_def)

text \<open>
  Also within five segments progress 100 is reached before the job is marked completed:
  on a video of five segments the loop reports \<open>50 + 5/5*50 = 100\<close> after the last
  segment while the status is \<open>processing\<close>, and when the move to the finished directory
  then fails the job ends with status \<open>failed\<close> and progress 100.
\<close>

lemma full_progress_before_completion:
  "fst (process_single_video menv_move_fails input0 state0)
     = Inl (IOError (Some 28) ''No space left on device'') \<and>
   current (snd (process_single_video menv_move_fails input0 state0))
     = \<lparr> status = ''failed'', progress = 100,
         error = Some ''[Errno 28] No space left on device'' \<rparr> \<and>
   \<lparr> status = ''processing'', progress = 100, error = None \<rparr>
     \<in> set (history (snd (process_single_video menv_move_fails input0 state0)))"
  by (simp add: main_run_defs menv_move_fails_def five_paths str_os_error_def str_nat.simps
        digit_char_def)

end
